theory Spec2Isabelle
  imports Complex_Main
begin

section \<open>Errors and Python list indexing\<close>

text \<open>
  The Python exceptions that the modelled functions can raise.  A failing call returns
  \<open>Inl e\<close> together with the kernel state reached so far: an exception does not undo the
  kernel calls made before it.
\<close>

datatype error =
    ValueError string
  | IndexError
  | ZeroDivisionError
  | OverflowError
  | UnboundLocalError
  | StopIteration

text \<open>\<open>xs.index(x)\<close>: the position of the first \<open>x\<close>; \<open>ValueError\<close> when there is none.\<close>

definition py_index :: "'a list \<Rightarrow> 'a \<Rightarrow> error + nat" where
  "py_index xs x =
     (if x \<in> set xs then Inr (length (takeWhile (\<lambda>y. y \<noteq> x) xs))
      else Inl (ValueError ''x is not in list''))"

text \<open>
  Double arithmetic.  The arguments of the builders are finite doubles, here the real
  numbers they denote.  An arithmetic operation yields the double nearest to its exact
  result, or an infinity when that is out of range.  The rounding \<open>rnd\<close> is a parameter
  of the model: \<open>rnd x\<close> is the rounded \<open>x\<close>, and \<open>None\<close> when it is not finite.  A computed
  float is therefore a \<open>real option\<close>, \<open>None\<close> standing for an infinity; with finite
  arguments and a non-zero divisor the operations below yield no NaN.
\<close>

type_synonym rounding = "real \<Rightarrow> real option"

definition py_mul :: "rounding \<Rightarrow> real \<Rightarrow> real \<Rightarrow> real option" where
  "py_mul rnd x y = rnd (x * y)"

text \<open>
  \<open>x / y\<close> on Python floats raises when the divisor is zero, whatever the dividend; an
  infinite dividend over a finite non-zero divisor stays infinite.
\<close>

definition py_truediv :: "rounding \<Rightarrow> real option \<Rightarrow> real \<Rightarrow> error + real option" where
  "py_truediv rnd x y =
     (if y = 0 then Inl ZeroDivisionError
      else Inr (case x of None \<Rightarrow> None | Some x' \<Rightarrow> rnd (x' / y)))"

text \<open>
  \<open>int(np.ceil(q))\<close> and \<open>int(math.ceil(q))\<close>: the ceiling of a finite double is exact;
  an infinity raises \<open>OverflowError\<close>.
\<close>

definition py_ceil :: "real option \<Rightarrow> error + int" where
  "py_ceil q = (case q of None \<Rightarrow> Inl OverflowError | Some q' \<Rightarrow> Inr \<lceil>q'\<rceil>)"

text \<open>\<open>math.pi\<close>, the double nearest to \<open>\<pi>\<close>.\<close>

definition math_pi :: real where
  "math_pi = 884279719003555 / 2 ^ 48"

text \<open>
  \<open>[xs[i] for i in idx]\<close> with non-negative literal indices: any index beyond the end of
  the list raises \<open>IndexError\<close>.
\<close>

definition py_items :: "'a list \<Rightarrow> nat list \<Rightarrow> error + 'a list" where
  "py_items xs idx =
     (if list_all (\<lambda>i. i < length xs) idx then Inr (map (\<lambda>i. xs ! i) idx)
      else Inl IndexError)"

text \<open>\<open>range(n)\<close>.\<close>

definition py_range :: "int \<Rightarrow> int list" where
  "py_range n = [0..n - 1]"

section \<open>The geometry kernel as seen by the builders\<close>

text \<open>
  Every call into the kernel is recorded, in order, with its arguments and, for the
  creating calls, the handle it returned.
\<close>

datatype call =
    IsInitialized
  | Initialize
  | GetCurrent
  | ModelAdd string
  | AddPoint real real real real int
  | AddLine int int int
  | AddCircleArc int int int int
  | AddCurveLoop "int list" int
  | AddPlaneSurface "int list" int
  | SetTransfinite "int list" "int list" "(int \<times> string) list" int int "real option"
  | AddPhysicalGroup int "int list" int
  | SetPhysicalName int int string
  | Synchronize
  | Revolve "(int \<times> int) list" real real real real real real real
  | GetBoundingBox int int
  | GetBoundary "(int \<times> int) list"
  | GetType int int
  | SetTransfiniteSurface int "string option" "int list option"

text \<open>
  The kernel is external.  Its model state is kept as far as the builders can observe it:
  whether it is initialised, the current model if there is one, the next free handle of
  each entity kind (the kernel hands out consecutive handles when none is requested;
  lines and arcs share the curve handles), and the calls received so far.
  Initialising the kernel gives it its default model, whose name is the empty string.
\<close>

record kernel =
  initialized :: bool
  current_model :: "string option"
  next_point :: int
  next_curve :: int
  next_loop :: int
  next_surface :: int
  next_group :: int
  calls :: "call list"

definition isInitialized :: "kernel \<Rightarrow> bool \<times> kernel" where
  "isInitialized k = (initialized k, k\<lparr>calls := calls k @ [IsInitialized]\<rparr>)"

definition initialize :: "kernel \<Rightarrow> kernel" where
  "initialize k =
     k\<lparr>initialized := True, current_model := Some '''', calls := calls k @ [Initialize]\<rparr>"

text \<open>\<open>gmsh.model.getCurrent()\<close> raises when there is no current model: \<open>None\<close> here.\<close>

definition getCurrent :: "kernel \<Rightarrow> string option \<times> kernel" where
  "getCurrent k = (current_model k, k\<lparr>calls := calls k @ [GetCurrent]\<rparr>)"

definition model_add :: "string \<Rightarrow> kernel \<Rightarrow> kernel" where
  "model_add name k = k\<lparr>current_model := Some name, calls := calls k @ [ModelAdd name]\<rparr>"

definition addPoint :: "real \<Rightarrow> real \<Rightarrow> real \<Rightarrow> real \<Rightarrow> kernel \<Rightarrow> int \<times> kernel" where
  "addPoint x y z msize k =
     (next_point k,
      k\<lparr>next_point := next_point k + 1,
        calls := calls k @ [AddPoint x y z msize (next_point k)]\<rparr>)"

definition addLine :: "int \<Rightarrow> int \<Rightarrow> kernel \<Rightarrow> int \<times> kernel" where
  "addLine p0 p1 k =
     (next_curve k,
      k\<lparr>next_curve := next_curve k + 1,
        calls := calls k @ [AddLine p0 p1 (next_curve k)]\<rparr>)"

definition addCircleArc :: "int \<Rightarrow> int \<Rightarrow> int \<Rightarrow> kernel \<Rightarrow> int \<times> kernel" where
  "addCircleArc p0 c p1 k =
     (next_curve k,
      k\<lparr>next_curve := next_curve k + 1,
        calls := calls k @ [AddCircleArc p0 c p1 (next_curve k)]\<rparr>)"

definition addCurveLoop :: "int list \<Rightarrow> kernel \<Rightarrow> int \<times> kernel" where
  "addCurveLoop curves k =
     (next_loop k,
      k\<lparr>next_loop := next_loop k + 1,
        calls := calls k @ [AddCurveLoop curves (next_loop k)]\<rparr>)"

definition addPlaneSurface :: "int list \<Rightarrow> kernel \<Rightarrow> int \<times> kernel" where
  "addPlaneSurface loops k =
     (next_surface k,
      k\<lparr>next_surface := next_surface k + 1,
        calls := calls k @ [AddPlaneSurface loops (next_surface k)]\<rparr>)"

definition addPhysicalGroup :: "int \<Rightarrow> int list \<Rightarrow> kernel \<Rightarrow> int \<times> kernel" where
  "addPhysicalGroup d tags k =
     (next_group k,
      k\<lparr>next_group := next_group k + 1,
        calls := calls k @ [AddPhysicalGroup d tags (next_group k)]\<rparr>)"

definition setPhysicalName :: "int \<Rightarrow> int \<Rightarrow> string \<Rightarrow> kernel \<Rightarrow> kernel" where
  "setPhysicalName d tag name k = k\<lparr>calls := calls k @ [SetPhysicalName d tag name]\<rparr>"

definition synchronize :: "kernel \<Rightarrow> kernel" where
  "synchronize k = k\<lparr>calls := calls k @ [Synchronize]\<rparr>"

text \<open>
  Modelled from the spec: \<open>set_transfinite\<close> lives in \<open>T_Conf.transfinite\<close>, which is not
  among the sources.  The spec (4.3, step 6) has it submit the radial and circular edge
  lists and the band surfaces with their arrangement labels for structured-constraint
  assignment; it is recorded as one request carrying exactly its arguments.  The
  progression bias is \<open>None\<close> when the caller leaves it to the default.
\<close>

definition set_transfinite ::
  "int list \<Rightarrow> int list \<Rightarrow> (int \<times> string) list \<Rightarrow> int \<Rightarrow> int \<Rightarrow> real option \<Rightarrow> kernel \<Rightarrow> kernel"
where
  "set_transfinite radial_curves circular_curves surfaces n_div_radial n_div_circular bumpcoef k =
     k\<lparr>calls := calls k @
        [SetTransfinite radial_curves circular_curves surfaces n_div_radial n_div_circular bumpcoef]\<rparr>"

section \<open>Size/Division Planner (\<open>core_disk.py\<close>, lines 54--63)\<close>

text \<open>
  Line 54, \<open>max(4, int(np.ceil(2 * a / h_band)))\<close>, and line 55,
  \<open>max(4, int(math.ceil((0.5 * math.pi) / h_band)))\<close>: the product, then the quotient,
  then the ceiling.
\<close>

definition n_div_radial :: "rounding \<Rightarrow> real \<Rightarrow> real \<Rightarrow> error + int" where
  "n_div_radial rnd a h_band =
     (case py_truediv rnd (py_mul rnd 2 a) h_band of
        Inl e \<Rightarrow> Inl e
      | Inr q \<Rightarrow> (case py_ceil q of Inl e \<Rightarrow> Inl e | Inr n \<Rightarrow> Inr (max 4 n)))"

definition n_div_angular :: "rounding \<Rightarrow> real \<Rightarrow> error + int" where
  "n_div_angular rnd h_band =
     (case py_truediv rnd (py_mul rnd 0.5 math_pi) h_band of
        Inl e \<Rightarrow> Inl e
      | Inr q \<Rightarrow> (case py_ceil q of Inl e \<Rightarrow> Inl e | Inr n \<Rightarrow> Inr (max 4 n)))"

definition meshSizeAt :: "real \<Rightarrow> real \<Rightarrow> real \<Rightarrow> real \<Rightarrow> real \<Rightarrow> real \<Rightarrow> real" where
  "meshSizeAt a rInner h_band h_outer x y =
     (let r = sqrt (x * x + y * y)
      in if rInner - a \<le> r \<and> r \<le> rInner + a then h_band else h_outer)"

section \<open>Disk Topology Builder (\<open>core_disk.py\<close>)\<close>

text \<open>
  The radii are compared and the coordinates of the points computed on the exact values
  of the arguments; rounding enters the planner's counts only.
\<close>

definition make_pt ::
  "real \<Rightarrow> real \<Rightarrow> real \<Rightarrow> real \<Rightarrow> real \<Rightarrow> real \<Rightarrow> kernel \<Rightarrow> int \<times> kernel" where
  "make_pt a rInner h_band h_outer r theta k =
     (let x = r * cos theta; y = r * sin theta
      in addPoint x y 0 (meshSizeAt a rInner h_band h_outer x y) k)"

text \<open>The dictionary \<open>p\<close> of the eight points of one sector, by key.\<close>

record sector_pts =
  in0 :: int
  in1 :: int
  mid0 :: int
  mid1 :: int
  out0 :: int
  out1 :: int
  o20 :: int
  o21 :: int

definition sector_points ::
  "real \<Rightarrow> real \<Rightarrow> real \<Rightarrow> real \<Rightarrow> real \<Rightarrow> real \<Rightarrow> real \<Rightarrow> kernel \<Rightarrow> sector_pts \<times> kernel"
where
  "sector_points a rInner rOuter h_band h_outer theta0 theta1 k0 =
     (let (p_in0, k1) = make_pt a rInner h_band h_outer (rInner - a) theta0 k0;
          (p_in1, k2) = make_pt a rInner h_band h_outer (rInner - a) theta1 k1;
          (p_mid0, k3) = make_pt a rInner h_band h_outer rInner theta0 k2;
          (p_mid1, k4) = make_pt a rInner h_band h_outer rInner theta1 k3;
          (p_out0, k5) = make_pt a rInner h_band h_outer (rInner + a) theta0 k4;
          (p_out1, k6) = make_pt a rInner h_band h_outer (rInner + a) theta1 k5;
          (p_o20, k7) = make_pt a rInner h_band h_outer rOuter theta0 k6;
          (p_o21, k8) = make_pt a rInner h_band h_outer rOuter theta1 k7
      in (\<lparr>in0 = p_in0, in1 = p_in1, mid0 = p_mid0, mid1 = p_mid1,
           out0 = p_out0, out1 = p_out1, o20 = p_o20, o21 = p_o21\<rparr>, k8))"

text \<open>
  Lines 90--121: the inner side of one sector.  The result holds the variables that the
  rest of the loop body reads (\<open>curves_ib\<close>, \<open>arc_interface\<close>, \<open>surf_ib\<close>), or \<open>None\<close> when
  neither branch ran and they are unbound, and the grown \<open>inner_surfaces\<close>.  The branch
  conditions do not change from one pass to the next, so a pass never reads the
  variables of an earlier pass: if no branch runs, the first pass already fails.
\<close>

definition inner_patches ::
  "real \<Rightarrow> real \<Rightarrow> int \<Rightarrow> sector_pts \<Rightarrow> int list \<Rightarrow> kernel
   \<Rightarrow> ((int list \<times> int \<times> int) option \<times> int list) \<times> kernel"
where
  "inner_patches a rInner p_center p inner_surfaces k0 =
     (if rInner - a > 0 then
        (let (l0, k1) = addLine (in0 p) (mid0 p) k0;
             (c1, k2) = addCircleArc (mid0 p) p_center (mid1 p) k1;
             (l2, k3) = addLine (mid1 p) (in1 p) k2;
             (c3, k4) = addCircleArc (in1 p) p_center (in0 p) k3;
             curves_ib = [l0, c1, l2, c3];
             arc_interface = c1;
             (loop_ib, k5) = addCurveLoop curves_ib k4;
             (surf_ib, k6) = addPlaneSurface [loop_ib] k5;
             inner_surfaces = inner_surfaces @ [surf_ib];
             inner_arc = c3;
             (f0, k7) = addLine p_center (in0 p) k6;
             (f1, k8) = addLine (in1 p) p_center k7;
             (loop, k9) = addCurveLoop [f0, - inner_arc, f1] k8;
             (surf, k10) = addPlaneSurface [loop] k9
         in ((Some (curves_ib, arc_interface, surf_ib), inner_surfaces @ [surf]), k10))
      else if rInner = a then
        (let (l0, k1) = addLine p_center (mid0 p) k0;
             (c1, k2) = addCircleArc (mid0 p) p_center (mid1 p) k1;
             (l2, k3) = addLine (mid1 p) p_center k2;
             curves_ib = [l0, c1, l2];
             arc_interface = c1;
             (loop_ib, k4) = addCurveLoop curves_ib k3;
             (surf_ib, k5) = addPlaneSurface [loop_ib] k4
         in ((Some (curves_ib, arc_interface, surf_ib), inner_surfaces @ [surf_ib]), k5))
      else ((None, inner_surfaces), k0))"

text \<open>
  Lines 123--150: the outer band, the outer bulk and the structured constraints of one
  sector.  The three new curves of the outer band are created before \<open>arc_interface\<close> is
  read; the index expressions of the \<open>set_transfinite\<close> arguments are evaluated before
  the call.
\<close>

definition outer_patches ::
  "real \<Rightarrow> real \<Rightarrow> real \<Rightarrow> int \<Rightarrow> sector_pts \<Rightarrow> (int list \<times> int \<times> int) option \<Rightarrow> int list
   \<Rightarrow> int \<Rightarrow> int \<Rightarrow> kernel \<Rightarrow> (error + int list) \<times> kernel"
where
  "outer_patches a rInner rOuter p_center p ib outer_surfaces ndr nda k0 =
     (let (l0, k1) = addLine (mid0 p) (out0 p) k0;
          (c1, k2) = addCircleArc (out0 p) p_center (out1 p) k1;
          (l2, k3) = addLine (out1 p) (mid1 p) k2
      in case ib of
           None \<Rightarrow> (Inl UnboundLocalError, k3)
         | Some (curves_ib, arc_interface, surf_ib) \<Rightarrow>
             (let curves_ob = [l0, c1, l2, - arc_interface];
                  arc_outer = c1;
                  (loop_ob, k4) = addCurveLoop curves_ob k3;
                  (surf_ob, k5) = addPlaneSurface [loop_ob] k4;
                  outer_surfaces = outer_surfaces @ [surf_ob];
                  (outer_surfaces, k6) =
                    (if a + rInner < rOuter then
                       (let (l_b0, j1) = addLine (out0 p) (o20 p) k5;
                            (arc_bound, j2) = addCircleArc (o20 p) p_center (o21 p) j1;
                            (l_b1, j3) = addLine (o21 p) (out1 p) j2;
                            (loop_bulk, j4) = addCurveLoop [l_b0, arc_bound, l_b1, - arc_outer] j3;
                            (surf, j5) = addPlaneSurface [loop_bulk] j4
                        in (outer_surfaces @ [surf], j5))
                     else (outer_surfaces, k5))
              in case py_items curves_ib [0, 2] of
                   Inl e \<Rightarrow> (Inl e, k6)
                 | Inr rad_ib \<Rightarrow>
                     (case py_items curves_ib [1, 3] of
                        Inl e \<Rightarrow> (Inl e, k6)
                      | Inr circ_ib \<Rightarrow>
                          (Inr outer_surfaces,
                           set_transfinite
                             (rad_ib @ [l0, l2])
                             (circ_ib @ [c1, - arc_interface])
                             [(surf_ib, ''Right''), (surf_ob, ''Left'')]
                             ndr nda None k6))))"

text \<open>One pass of the loop body (lines 76--150) for sector \<open>i\<close> of \<open>n\<close>.\<close>

definition sector ::
  "real \<Rightarrow> real \<Rightarrow> real \<Rightarrow> real \<Rightarrow> real \<Rightarrow> int \<Rightarrow> int \<Rightarrow> int \<Rightarrow> int \<Rightarrow> int
   \<Rightarrow> int list \<times> int list \<Rightarrow> kernel \<Rightarrow> (error + int list \<times> int list) \<times> kernel"
where
  "sector a rInner rOuter h_band h_outer p_center ndr nda n i surfs k0 =
     (let theta0 = 2 * pi * real_of_int i / real_of_int n;
          theta1 = 2 * pi * real_of_int (i + 1) / real_of_int n;
          (p, k1) = sector_points a rInner rOuter h_band h_outer theta0 theta1 k0;
          ((ib, inner_surfaces), k2) = inner_patches a rInner p_center p (fst surfs) k1
      in case outer_patches a rInner rOuter p_center p ib (snd surfs) ndr nda k2 of
           (Inl e, k3) \<Rightarrow> (Inl e, k3)
         | (Inr outer_surfaces, k3) \<Rightarrow> (Inr (inner_surfaces, outer_surfaces), k3))"

text \<open>The \<open>for\<close> loop: the first failing pass ends it.\<close>

fun sectors ::
  "real \<Rightarrow> real \<Rightarrow> real \<Rightarrow> real \<Rightarrow> real \<Rightarrow> int \<Rightarrow> int \<Rightarrow> int \<Rightarrow> int \<Rightarrow> int list
   \<Rightarrow> int list \<times> int list \<Rightarrow> kernel \<Rightarrow> (error + int list \<times> int list) \<times> kernel"
where
  "sectors a rInner rOuter h_band h_outer p_center ndr nda n [] surfs k = (Inr surfs, k)"
| "sectors a rInner rOuter h_band h_outer p_center ndr nda n (i # is) surfs k =
     (case sector a rInner rOuter h_band h_outer p_center ndr nda n i surfs k of
        (Inl e, k') \<Rightarrow> (Inl e, k')
      | (Inr surfs', k') \<Rightarrow>
          sectors a rInner rOuter h_band h_outer p_center ndr nda n is surfs' k')"

text \<open>Lines 39--45: initialise the kernel and add a model if needed.\<close>

definition open_model :: "kernel \<Rightarrow> kernel" where
  "open_model k0 =
     (let (is_init, k1) = isInitialized k0;
          k2 = (if \<not> is_init then initialize k1 else k1);
          (cur, k3) = getCurrent k2
      in case cur of None \<Rightarrow> model_add ''TransfiniteDisk'' k3 | Some _ \<Rightarrow> k3)"

text \<open>
  \<open>Transfinite_Disk\<close>.  \<open>ensure_gmsh_available\<close> (of \<open>T_Conf.utils\<close>, not among the
  sources) makes no kernel call that a builder observes and is left out.  Line 74
  assigns \<open>n_sectors = 4\<close> over the argument.  The rounding \<open>rnd\<close> is that of the planner's
  arithmetic.
\<close>

definition Transfinite_Disk ::
  "rounding \<Rightarrow> real \<Rightarrow> real \<Rightarrow> real \<Rightarrow> real \<Rightarrow> real \<Rightarrow> int \<Rightarrow> string \<Rightarrow> string \<Rightarrow> string
   \<Rightarrow> string \<Rightarrow> kernel \<Rightarrow> (error + unit) \<times> kernel"
where
  "Transfinite_Disk rnd a rInner rOuter h_band h_outer n_sectors
       InnerMaterialName OuterMaterialName InterfaceName OuterBoundaryName k0 =
     (let k4 = open_model k0
      in if rInner - a < 0 then (Inl (ValueError ''rInner - a must be nonnegative.''), k4)
         else if rInner + a > rOuter then (Inl (ValueError ''rInner + a must be <= rOuter.''), k4)
         else case n_div_radial rnd a h_band of
           Inl e \<Rightarrow> (Inl e, k4)
         | Inr ndr \<Rightarrow>
             (case n_div_angular rnd h_band of
                Inl e \<Rightarrow> (Inl e, k4)
              | Inr nda \<Rightarrow>
                  (let (p_center, k5) = addPoint 0 0 0 (meshSizeAt a rInner h_band h_outer 0 0) k4;
                       n_sectors = 4
                   in case sectors a rInner rOuter h_band h_outer p_center ndr nda n_sectors
                             (py_range n_sectors) ([], []) k5 of
                        (Inl e, k6) \<Rightarrow> (Inl e, k6)
                      | (Inr (inner_surfaces, outer_surfaces), k6) \<Rightarrow>
                          (let (innerGroupTag, k7) = addPhysicalGroup 2 inner_surfaces k6;
                               k8 = setPhysicalName 2 innerGroupTag InnerMaterialName k7;
                               (outerGroupTag, k9) = addPhysicalGroup 2 outer_surfaces k8;
                               k10 = setPhysicalName 2 outerGroupTag OuterMaterialName k9
                           in (Inr (), synchronize k10)))))"

section \<open>Sphere Wedge Builder (\<open>mesh.py\<close>)\<close>

text \<open>
  What the kernel answers to the queries of the sweep code is not determined by the
  builders.  It is a parameter of the model: any function of the kernel state at the
  time of the call and of the call's arguments.  A bounding box is the six floats
  \<open>(xmin, ymin, zmin, xmax, ymax, zmax)\<close>, indices 0 to 5.
\<close>

record bbox =
  xmin :: real
  ymin :: real
  zmin :: real
  xmax :: real
  ymax :: real
  zmax :: real

record answers =
  revolve_answer ::
    "kernel \<Rightarrow> (int \<times> int) list \<Rightarrow> real \<times> real \<times> real \<Rightarrow> real \<times> real \<times> real \<Rightarrow> real
     \<Rightarrow> (int \<times> int) list"
  boundary_answer :: "kernel \<Rightarrow> (int \<times> int) list \<Rightarrow> (int \<times> int) list"
  type_answer :: "kernel \<Rightarrow> int \<Rightarrow> int \<Rightarrow> string"
  bbox_answer :: "kernel \<Rightarrow> int \<Rightarrow> int \<Rightarrow> bbox"

definition revolve ::
  "answers \<Rightarrow> (int \<times> int) list \<Rightarrow> real \<Rightarrow> real \<Rightarrow> real \<Rightarrow> real \<Rightarrow> real \<Rightarrow> real \<Rightarrow> real
   \<Rightarrow> kernel \<Rightarrow> (int \<times> int) list \<times> kernel"
where
  "revolve G dimtags ax ay az cx cy cz angle k =
     (revolve_answer G k dimtags (ax, ay, az) (cx, cy, cz) angle,
      k\<lparr>calls := calls k @ [Revolve dimtags ax ay az cx cy cz angle]\<rparr>)"

definition getBoundingBox :: "answers \<Rightarrow> int \<Rightarrow> int \<Rightarrow> kernel \<Rightarrow> bbox \<times> kernel" where
  "getBoundingBox G d tag k =
     (bbox_answer G k d tag, k\<lparr>calls := calls k @ [GetBoundingBox d tag]\<rparr>)"

definition getBoundary ::
  "answers \<Rightarrow> (int \<times> int) list \<Rightarrow> kernel \<Rightarrow> (int \<times> int) list \<times> kernel" where
  "getBoundary G dimtags k =
     (boundary_answer G k dimtags, k\<lparr>calls := calls k @ [GetBoundary dimtags]\<rparr>)"

definition getType :: "answers \<Rightarrow> int \<Rightarrow> int \<Rightarrow> kernel \<Rightarrow> string \<times> kernel" where
  "getType G d tag k = (type_answer G k d tag, k\<lparr>calls := calls k @ [GetType d tag]\<rparr>)"

definition setTransfiniteSurface ::
  "int \<Rightarrow> string option \<Rightarrow> int list option \<Rightarrow> kernel \<Rightarrow> kernel" where
  "setTransfiniteSurface tag arrangement cornerTags k =
     k\<lparr>calls := calls k @ [SetTransfiniteSurface tag arrangement cornerTags]\<rparr>"

text \<open>
  Modelled from the spec: \<open>find_missing_numbers\<close> lives in \<open>T_Conf.utils\<close>, which is not
  among the sources.  The spec (4.2) has it find, within the given ID range, the ID
  values absent from the corner-ID set, the first of them being the one used.  Its
  caller discards the first component of the returned pair; only the second, the list
  of missing values in the order of the range, is modelled.
\<close>

definition find_missing_numbers :: "int list \<Rightarrow> int list \<Rightarrow> int list" where
  "find_missing_numbers ids rng = filter (\<lambda>x. x \<notin> set ids) rng"

text \<open>Lines 110--116: the arrangement label of one new surface.\<close>

definition surface_arrangement :: "answers \<Rightarrow> string \<Rightarrow> int \<Rightarrow> kernel \<Rightarrow> string \<times> kernel" where
  "surface_arrangement G surface_type s_tag k =
     (if surface_type = ''inner'' then (''Right'', k)
      else
        (let (bb, k1) = getBoundingBox G 2 s_tag k;
             tol = 1 / 10 ^ 6;
             avg_z = (zmin bb + zmax bb) / 2
         in (if \<bar>avg_z\<bar> < tol \<and> (xmin bb \<ge> 0 \<and> xmax bb \<ge> 0) then ''Right'' else ''Left'',
             k1)))"

text \<open>
  Lines 124--137: the loop over the boundary of a surface, growing \<open>corner_points\<close>,
  \<open>radial_curves\<close> and \<open>curved_curves\<close>.
\<close>

definition add_corner :: "int list \<Rightarrow> int \<Rightarrow> int list" where
  "add_corner corner_points pt = (if pt \<notin> set corner_points then corner_points @ [pt] else corner_points)"

fun classify_boundary ::
  "answers \<Rightarrow> (int \<times> int) list \<Rightarrow> int list \<times> int list \<times> int list \<Rightarrow> kernel
   \<Rightarrow> (int list \<times> int list \<times> int list) \<times> kernel"
where
  "classify_boundary G [] acc k = (acc, k)"
| "classify_boundary G ((dim_c, tag_c) # bnd) (corner_points, radial_curves, curved_curves) k =
     (if dim_c = 1 then
        (let (etype, k1) = getType G 1 \<bar>tag_c\<bar> k;
             curved_curves = (if etype = ''Circle'' then curved_curves @ [tag_c] else curved_curves);
             radial_curves =
               (if etype \<noteq> ''Circle'' \<and> etype = ''Line'' then radial_curves @ [tag_c]
                else radial_curves);
             (endpts, k2) = getBoundary G [(1, tag_c)] k1;
             corner_points =
               (if length endpts = 2 then
                  (let pt_a = snd (endpts ! 0); pt_b = snd (endpts ! 1)
                   in add_corner (add_corner corner_points pt_a) pt_b)
                else corner_points)
         in classify_boundary G bnd (corner_points, radial_curves, curved_curves) k2)
      else classify_boundary G bnd (corner_points, radial_curves, curved_curves) k)"

text \<open>Lines 145--158: the Corner Resolver.  \<open>np.arange(2, 21)\<close> is \<open>[2..20]\<close>.\<close>

definition resolve_corners :: "int \<Rightarrow> string \<Rightarrow> int list \<Rightarrow> kernel \<Rightarrow> (error + unit) \<times> kernel" where
  "resolve_corners s_tag use_arr corner_points k =
     (if length corner_points = 3 then
        (if 1 \<in> set corner_points then
           (case py_index corner_points 1 of
              Inl e \<Rightarrow> (Inl e, k)
            | Inr i \<Rightarrow>
                (let corner_points = drop i corner_points @ take i corner_points
                 in (Inr (), setTransfiniteSurface s_tag (Some use_arr) (Some corner_points) k)))
         else
           (let missing = find_missing_numbers corner_points [2..20]
            in case missing of
                 [] \<Rightarrow> (Inl IndexError, k)
               | m # _ \<Rightarrow>
                   (case py_index corner_points m of
                      Inl e \<Rightarrow> (Inl e, k)
                    | Inr i \<Rightarrow>
                        (let corner_points = drop i corner_points @ take i corner_points
                         in (Inr (), setTransfiniteSurface s_tag None (Some corner_points) k)))))
      else (Inr (), setTransfiniteSurface s_tag (Some use_arr) None k))"

text \<open>Lines 108--158: the loop body for one new surface.\<close>

definition sweep_surface ::
  "answers \<Rightarrow> int \<Rightarrow> int \<Rightarrow> real \<Rightarrow> string \<Rightarrow> int \<Rightarrow> kernel \<Rightarrow> (error + unit) \<times> kernel" where
  "sweep_surface G n_div_rad n_div_curved bumpcoef surface_type s_tag k0 =
     (let (use_arr, k1) = surface_arrangement G surface_type s_tag k0;
          (bnd, k2) = getBoundary G [(2, s_tag)] k1;
          ((corner_points, radial_curves, curved_curves), k3) =
             classify_boundary G bnd ([], [], []) k2;
          k4 = set_transfinite radial_curves curved_curves [(s_tag, use_arr)]
                 n_div_rad n_div_curved (Some bumpcoef) k3
      in resolve_corners s_tag use_arr corner_points k4)"

fun sweep_surfaces ::
  "answers \<Rightarrow> int \<Rightarrow> int \<Rightarrow> real \<Rightarrow> string \<Rightarrow> int list \<Rightarrow> kernel \<Rightarrow> (error + unit) \<times> kernel" where
  "sweep_surfaces G n_div_rad n_div_curved bumpcoef surface_type [] k = (Inr (), k)"
| "sweep_surfaces G n_div_rad n_div_curved bumpcoef surface_type (s_tag # new_surfs) k =
     (case sweep_surface G n_div_rad n_div_curved bumpcoef surface_type s_tag k of
        (Inl e, k') \<Rightarrow> (Inl e, k')
      | (Inr _, k') \<Rightarrow>
          sweep_surfaces G n_div_rad n_div_curved bumpcoef surface_type new_surfs k')"

text \<open>\<open>_apply_transfinite_sweep\<close>.\<close>

definition apply_transfinite_sweep ::
  "answers \<Rightarrow> (int \<times> int) list \<Rightarrow> int \<Rightarrow> int \<Rightarrow> real \<Rightarrow> string \<Rightarrow> kernel
   \<Rightarrow> (error + unit) \<times> kernel"
where
  "apply_transfinite_sweep G sweep_results n_div_rad n_div_curved bumpcoef surface_type k =
     (let new_surfs = map snd (filter (\<lambda>(d, tag). d = 2) sweep_results);
          k1 = synchronize k
      in sweep_surfaces G n_div_rad n_div_curved bumpcoef surface_type new_surfs k1)"

text \<open>
  \<open>next(v for (dim, v) in out if dim == 3)\<close>: the first volume of a sweep result;
  \<open>StopIteration\<close> when the result holds none.
\<close>

definition first_volume :: "(int \<times> int) list \<Rightarrow> error + int" where
  "first_volume out =
     (case filter (\<lambda>(d, v). d = 3) out of
        [] \<Rightarrow> Inl StopIteration
      | (d, v) # _ \<Rightarrow> Inr v)"

text \<open>
  \<open>revolve_surface\<close>.  The axis and the centre are the documented triples \<open>(x, y, z)\<close>;
  \<open>n_div_rad\<close> is the parameter \<open>n_div_radial\<close>.  As in \<open>Transfinite_Disk\<close>,
  \<open>ensure_gmsh_available\<close> is left out.
\<close>

definition revolve_surface ::
  "answers \<Rightarrow> real \<times> real \<times> real \<Rightarrow> real \<times> real \<times> real \<Rightarrow> real \<Rightarrow> int \<Rightarrow> int \<Rightarrow> int \<Rightarrow> real
   \<Rightarrow> string \<Rightarrow> bool \<Rightarrow> kernel \<Rightarrow> (error + int \<times> int) \<times> kernel"
where
  "revolve_surface G revolve_axis revolve_center angle_sweep surface_loop
       n_div_rad n_div_curved bumpcoef surface_type apply_transfinite k0 =
     (let (ax, ay, az) = revolve_axis;
          (cx, cy, cz) = revolve_center;
          (out_plus, k1) = revolve G [(2, surface_loop)] ax ay az cx cy cz angle_sweep k0
      in case first_volume out_plus of
           Inl e \<Rightarrow> (Inl e, k1)
         | Inr vol_plus \<Rightarrow>
             (let (out_minus, k2) =
                    revolve G [(2, surface_loop)] ax ay az cx cy cz (- angle_sweep) k1
              in case first_volume out_minus of
                   Inl e \<Rightarrow> (Inl e, k2)
                 | Inr vol_minus \<Rightarrow>
                     (if apply_transfinite then
                        (case apply_transfinite_sweep G out_plus n_div_rad n_div_curved
                                bumpcoef surface_type k2 of
                           (Inl e, k3) \<Rightarrow> (Inl e, k3)
                         | (Inr _, k3) \<Rightarrow>
                             (case apply_transfinite_sweep G out_minus n_div_rad n_div_curved
                                     bumpcoef surface_type k3 of
                                (Inl e, k4) \<Rightarrow> (Inl e, k4)
                              | (Inr _, k4) \<Rightarrow> (Inr (vol_plus, vol_minus), k4)))
                      else (Inr (vol_plus, vol_minus), k2))))"

section \<open>Vocabulary of the properties\<close>

text \<open>
  A kernel that has not been initialised and holds no model; its handles start at 1,
  so the first point created, the centre of the disk, is point 1.
\<close>

definition fresh_kernel :: kernel where
  "fresh_kernel =
     \<lparr>initialized = False, current_model = None, next_point = 1, next_curve = 1,
      next_loop = 1, next_surface = 1, next_group = 1, calls = []\<rparr>"

text \<open>The calls made between the kernel states \<open>k\<close> and \<open>k'\<close>.\<close>

definition new_calls :: "kernel \<Rightarrow> kernel \<Rightarrow> call list" where
  "new_calls k k' = drop (length (calls k)) (calls k')"

text \<open>Calls that create a geometric primitive.\<close>

fun creates_geometry :: "call \<Rightarrow> bool" where
  "creates_geometry (AddPoint _ _ _ _ _) = True"
| "creates_geometry (AddLine _ _ _) = True"
| "creates_geometry (AddCircleArc _ _ _ _) = True"
| "creates_geometry (AddCurveLoop _ _) = True"
| "creates_geometry (AddPlaneSurface _ _) = True"
| "creates_geometry (Revolve _ _ _ _ _ _ _ _) = True"
| "creates_geometry _ = False"

text \<open>
  The division counts (radial, circular) carried by the structured-constraint requests
  among some calls, in order.  Each pass of the sector loop that reaches its end makes
  exactly one such request, so their number is the number of sectors built.
\<close>

fun transfinite_count :: "call \<Rightarrow> (int \<times> int) list" where
  "transfinite_count (SetTransfinite _ _ _ r c _) = [(r, c)]"
| "transfinite_count _ = []"

definition transfinite_counts :: "call list \<Rightarrow> (int \<times> int) list" where
  "transfinite_counts cs = concat (map transfinite_count cs)"

definition sectors_built :: "kernel \<Rightarrow> kernel \<Rightarrow> nat" where
  "sectors_built k k' = length (transfinite_counts (new_calls k k'))"

fun is_group_call :: "call \<Rightarrow> bool" where
  "is_group_call (AddPhysicalGroup _ _ _) = True"
| "is_group_call (SetPhysicalName _ _ _) = True"
| "is_group_call _ = False"

fun is_revolve :: "call \<Rightarrow> bool" where
  "is_revolve (Revolve _ _ _ _ _ _ _ _) = True"
| "is_revolve _ = False"

text \<open>
  An arc from point \<open>p0\<close> to point \<open>p1\<close>; a call creating the curve with handle \<open>h\<close>; a
  curve loop that refers to curve \<open>h\<close> in either orientation; a plane surface bounded by
  loop \<open>l\<close>.
\<close>

fun arc_between :: "int \<Rightarrow> int \<Rightarrow> call \<Rightarrow> bool" where
  "arc_between p0 p1 (AddCircleArc q0 _ q1 _) = (q0 = p0 \<and> q1 = p1)"
| "arc_between p0 p1 _ = False"

fun creates_curve :: "int \<Rightarrow> call \<Rightarrow> bool" where
  "creates_curve h (AddLine _ _ t) = (t = h)"
| "creates_curve h (AddCircleArc _ _ _ t) = (t = h)"
| "creates_curve h _ = False"

fun references_curve :: "int \<Rightarrow> call \<Rightarrow> bool" where
  "references_curve h (AddCurveLoop cs _) = (h \<in> set cs \<or> - h \<in> set cs)"
| "references_curve h _ = False"

fun bounded_by :: "int \<Rightarrow> call \<Rightarrow> bool" where
  "bounded_by l (AddPlaneSurface ls _) = (l \<in> set ls)"
| "bounded_by l _ = False"

text \<open>
  The angular count as the spec words it (4.1): at least 4, and otherwise the arc length
  \<open>radius_reference \<cdot> \<Delta>\<theta>\<close> of one sector over \<open>h_band\<close>, rounded up.
\<close>

definition spec_n_div_angular :: "real \<Rightarrow> real \<Rightarrow> real \<Rightarrow> int" where
  "spec_n_div_angular radius_reference dtheta h_band =
     max 4 \<lceil>(radius_reference * dtheta) / h_band\<rceil>"


text \<open>
  The rounding of IEEE 754 binary64 arithmetic, to nearest with ties to even.  A real
  \<open>x\<close> lies in the binade of exponent \<open>binade x\<close> (at least \<open>-1022\<close>, where the subnormal
  numbers begin); the doubles of that binade are the multiples of \<open>ulp x\<close>; \<open>x\<close> is rounded
  to the nearest multiple, a tie going to the even one (\<open>rhe\<close>); a result of magnitude
  \<open>2^1024\<close> or more is an infinity.
\<close>

definition rhe :: "real \<Rightarrow> int" where
  "rhe r =
     (let f = \<lfloor>r\<rfloor>; d = r - of_int f
      in if d < 1 / 2 then f else if 1 / 2 < d then f + 1 else if even f then f else f + 1)"

definition binade :: "real \<Rightarrow> int" where
  "binade x = max (- 1022) \<lfloor>log 2 \<bar>x\<bar>\<rfloor>"

definition ulp :: "real \<Rightarrow> real" where
  "ulp x = 2 powr (of_int (binade x) - 52)"

definition round_real :: "real \<Rightarrow> real" where
  "round_real x = of_int (rhe (x / ulp x)) * ulp x"

definition round_double :: rounding where
  "round_double x = (let y = round_real x in if 2 ^ 1024 \<le> \<bar>y\<bar> then None else Some y)"


text \<open>
  A kernel for the examples: a sweep by a positive angle yields two surfaces and volume
  1, a sweep by a negative angle one surface and volume 2; every bounding box is a box
  in the plane \<open>z = 0\<close> with \<open>x\<close> in \<open>[0, 1]\<close> and \<open>y\<close> in \<open>[-1, -1/2]\<close>.
\<close>

definition low_y_box :: bbox where
  "low_y_box = \<lparr>xmin = 0, ymin = - 1, zmin = 0, xmax = 1, ymax = - (1 / 2), zmax = 0\<rparr>"


text \<open>
  A kernel whose sweeps create a triangular face: a sweep yields one surface (11 for a
  positive angle, 12 for a negative one) and one volume; the surface is bounded by the
  lines 21, 22 and 23, which join the points 5, 6 and 8.
\<close>

definition triangle_answers :: answers where
  "triangle_answers =
     \<lparr>revolve_answer =
        (\<lambda>k dimtags axis center angle.
           if 0 < angle then [(2, 11), (3, 1)] else [(2, 12), (3, 2)]),
      boundary_answer =
        (\<lambda>k dimtags.
           if dimtags = [(2, 11)] \<or> dimtags = [(2, 12)] then [(1, 21), (1, 22), (1, 23)]
           else if dimtags = [(1, 21)] then [(0, 5), (0, 6)]
           else if dimtags = [(1, 22)] then [(0, 6), (0, 8)]
           else if dimtags = [(1, 23)] then [(0, 8), (0, 5)]
           else []),
      type_answer = (\<lambda>k d tag. ''Line''),
      bbox_answer = (\<lambda>k d tag. low_y_box)\<rparr>"

section \<open>Facts about the kernel calls\<close>

lemmas kernel_defs =
  isInitialized_def initialize_def getCurrent_def model_add_def addPoint_def addLine_def
  addCircleArc_def addCurveLoop_def addPlaneSurface_def addPhysicalGroup_def
  setPhysicalName_def synchronize_def set_transfinite_def

lemmas query_defs =
  revolve_def getBoundingBox_def getBoundary_def getType_def setTransfiniteSurface_def

lemmas sector_defs =
  sector_def sector_points_def make_pt_def inner_patches_def outer_patches_def py_items_def

lemma py_range_4: "py_range 4 = [0, 1, 2, 3]"
  by (simp add: py_range_def upto.simps)

lemma replicate_4: "replicate 4 x = [x, x, x, x]"
  by (simp add: numeral_eq_Suc)

lemma transfinite_counts_simps [simp]:
  "transfinite_counts [] = []"
  "transfinite_counts (c # cs) = transfinite_count c @ transfinite_counts cs"
  "transfinite_counts (xs @ ys) = transfinite_counts xs @ transfinite_counts ys"
  by (simp_all add: transfinite_counts_def)

lemma new_calls_append [simp]: "calls k' = calls k @ cs \<Longrightarrow> new_calls k k' = cs"
  by (simp add: new_calls_def)

subsection \<open>Opening the model\<close>

lemma open_model_calls:
  "calls (open_model k) =
     calls k @ IsInitialized # (if initialized k then [] else [Initialize]) @
       GetCurrent # (if initialized k \<and> current_model k = None
                     then [ModelAdd ''TransfiniteDisk''] else [])"
  by (cases "initialized k"; cases "current_model k") (simp_all add: open_model_def kernel_defs)

lemma open_model_frame:
  "initialized (open_model k)"
  "next_point (open_model k) = next_point k"
  "next_curve (open_model k) = next_curve k"
  "next_loop (open_model k) = next_loop k"
  "next_surface (open_model k) = next_surface k"
  "next_group (open_model k) = next_group k"
  by (cases "initialized k"; cases "current_model k"; simp add: open_model_def kernel_defs)+

lemma open_model_quiet:
  "\<exists>cs. calls (open_model k) = calls k @ cs \<and> list_all (\<lambda>c. \<not> creates_geometry c) cs \<and>
        transfinite_counts cs = [] \<and> filter is_group_call cs = []"
  by (simp add: open_model_calls)

section \<open>Double rounding\<close>

lemma rhe_of_int [simp]: "rhe (of_int n) = n"
  by (simp add: rhe_def)

lemma rhe_zero [simp]: "rhe 0 = 0"
  using rhe_of_int [of 0] by simp







lemma binade_minus [simp]: "binade (- x) = binade x"
  by (simp add: binade_def)

lemma ulp_minus [simp]: "ulp (- x) = ulp x"
  by (simp add: ulp_def)

lemma ulp_pos [simp]: "0 < ulp x"
  by (simp add: ulp_def)

lemma ulp_nonneg [simp]: "0 \<le> ulp x"
  by (simp add: ulp_def)

lemma ulp_nonzero [simp]: "ulp x \<noteq> 0"
  by (simp add: ulp_def)




lemma round_real_zero [simp]: "round_real 0 = 0"
  by (simp add: round_real_def)









lemma binade_representable:
  assumes "\<bar>m\<bar> < 2 ^ 53" "- 1074 \<le> e" "m \<noteq> 0"
  shows "binade (of_int m * 2 powr of_int e) - 52 \<le> e"
proof -
  let ?x = "\<bar>of_int m * 2 powr of_int e :: real\<bar>"
  have pos: "0 < ?x" using assms(3) by simp
  have "?x = \<bar>of_int m\<bar> * 2 powr of_int e" by (simp add: abs_mult)
  also have "\<dots> < 2 ^ 53 * 2 powr of_int e"
  proof -
    have "\<bar>of_int m :: real\<bar> < 2 ^ 53"
      using assms(1) by (metis of_int_abs of_int_less_numeral_power_cancel_iff)
    then show ?thesis by (intro mult_strict_right_mono) simp_all
  qed
  also have "\<dots> = 2 powr 53 * 2 powr of_int e" by simp
  also have "\<dots> = 2 powr (53 + of_int e)" by (rule powr_add [symmetric])
  also have "\<dots> = 2 powr (of_int (52 + e) + 1)"
    by (rule arg_cong [where f = "(powr) 2"]) simp
  finally have lt: "?x < 2 powr (of_int (52 + e) + 1)" .
  have "\<lfloor>log 2 ?x\<rfloor> \<le> 52 + e"
  proof (rule ccontr)
    assume "\<not> \<lfloor>log 2 ?x\<rfloor> \<le> 52 + e"
    then have "52 + e + 1 \<le> \<lfloor>log 2 ?x\<rfloor>" by simp
    then have "of_int (52 + e + 1) \<le> log 2 ?x" by (simp add: le_floor_iff)
    then have "2 powr of_int (52 + e + 1) \<le> ?x"
      using pos by (simp add: le_log_iff)
    then show False using lt by simp
  qed
  then show ?thesis using assms(2) by (simp add: binade_def)
qed

lemma round_real_representable:
  assumes "\<bar>m\<bar> < 2 ^ 53" "- 1074 \<le> e"
  shows "round_real (of_int m * 2 powr of_int e) = of_int m * 2 powr of_int e"
proof (cases "m = 0")
  case True
  then show ?thesis by simp
next
  case False
  let ?x = "of_int m * 2 powr of_int e :: real"
  define n where "n = nat (e - (binade ?x - 52))"
  have n: "of_int e - (of_int (binade ?x) - 52) = (of_nat n :: real)"
    using binade_representable [OF assms False] by (simp add: n_def)
  have "?x / ulp ?x = of_int m * 2 powr (of_int e - (of_int (binade ?x) - 52))"
    by (simp add: ulp_def powr_diff)
  also have "\<dots> = of_int m * 2 ^ n"
    unfolding n by (simp add: powr_realpow)
  also have "\<dots> = of_int (m * 2 ^ n)" by simp
  finally have q: "?x / ulp ?x = of_int (m * 2 ^ n)" .
  have "round_real ?x = of_int (m * 2 ^ n) * ulp ?x"
    unfolding round_real_def q by (simp only: rhe_of_int)
  also have "\<dots> = (?x / ulp ?x) * ulp ?x" unfolding q ..
  also have "\<dots> = ?x" by simp
  finally show ?thesis .
qed

lemma round_double_representable:
  assumes "\<bar>m\<bar> < 2 ^ 53" "- 1074 \<le> e"
  shows "round_double (of_int m * 2 powr of_int e) =
     (if 2 ^ 1024 \<le> \<bar>of_int m * 2 powr of_int e :: real\<bar> then None
      else Some (of_int m * 2 powr of_int e))"
  by (simp add: round_double_def round_real_representable [OF assms])

lemma round_double_int:
  assumes "\<bar>m\<bar> < 2 ^ 53"
  shows "round_double (of_int m * 2 ^ k) =
     (if 2 ^ 1024 \<le> \<bar>of_int m * 2 ^ k :: real\<bar> then None else Some (of_int m * 2 ^ k))"
proof -
  have "(2 :: real) powr of_int (int k) = 2 ^ k" by (simp add: powr_realpow)
  then show ?thesis
    using round_double_representable [of m "int k"] assms by simp
qed

lemma round_double_frac:
  assumes "\<bar>m\<bar> < 2 ^ 53" "k \<le> 1074"
  shows "round_double (of_int m / 2 ^ k) = Some (of_int m / 2 ^ k)"
proof -
  have p: "(2 :: real) powr of_int (- int k) = 1 / 2 ^ k"
    by (simp add: powr_minus powr_realpow inverse_eq_divide)
  have "\<bar>of_int m :: real\<bar> * 1 \<le> \<bar>of_int m\<bar> * 2 ^ k"
    by (intro mult_left_mono) simp_all
  then have "\<bar>of_int m / 2 ^ k :: real\<bar> \<le> \<bar>of_int m\<bar>"
    by (simp add: abs_divide divide_le_eq)
  also have "\<dots> < 2 ^ 53"
    using assms(1) by (metis of_int_abs of_int_less_numeral_power_cancel_iff)
  also have "\<dots> < (2 :: real) ^ 1024" by simp
  finally have "\<not> 2 ^ 1024 \<le> \<bar>of_int m / 2 ^ k :: real\<bar>" by simp
  then show ?thesis
    using round_double_representable [of m "- int k"] assms unfolding p by simp
qed

lemma binade_eq:
  assumes "2 powr of_int e \<le> \<bar>x\<bar>" "\<bar>x\<bar> < 2 powr (of_int e + 1)" "- 1022 \<le> e"
  shows "binade x = e"
proof -
  have "0 < 2 powr real_of_int e" by simp
  then have pos: "0 < \<bar>x\<bar>" using assms(1) by linarith
  have "\<lfloor>log 2 \<bar>x\<bar>\<rfloor> = e"
    using floor_log_eq_powr_iff [of "\<bar>x\<bar>" 2 e] pos assms(1,2) by simp
  then show ?thesis using assms(3) by (simp add: binade_def)
qed

lemma round_double_in_binade:
  assumes "2 powr of_int e \<le> \<bar>x\<bar>" "\<bar>x\<bar> < 2 powr (of_int e + 1)" "- 1022 \<le> e"
  shows "round_double x =
     (let u = 2 powr (of_int e - 52); y = of_int (rhe (x / u)) * u
      in if 2 ^ 1024 \<le> \<bar>y\<bar> then None else Some y)"
  by (simp add: round_double_def round_real_def ulp_def binade_eq [OF assms] Let_def)

subsection \<open>The planner on doubles that need no rounding\<close>

lemma round_double_small_ints:
  "round_double 1 = Some 1" "round_double 2 = Some 2" "round_double 8 = Some 8"
  "round_double 10 = Some 10" "round_double 16 = Some 16" "round_double 20 = Some 20"
  "round_double 80 = Some 80" "round_double (- 10) = Some (- 10)"
  using round_double_int [of 1 0] round_double_int [of 2 0] round_double_int [of 8 0]
    round_double_int [of 10 0] round_double_int [of 16 0] round_double_int [of 20 0]
    round_double_int [of 80 0] round_double_int [of "- 10" 0]
  by simp_all

lemma round_double_quarter: "round_double (1 / 4) = Some (1 / 4)"
  using round_double_frac [of 1 2] by simp

lemma round_double_huge: "round_double (10 * 2 ^ 1074) = None"
  using round_double_int [of 10 1074] by simp

lemma round_double_half_pi:
  "round_double (884279719003555 / 2 ^ 49) = Some (884279719003555 / 2 ^ 49)"
  using round_double_frac [of 884279719003555 49] by simp

lemma round_double_neg_half_pi:
  "round_double (- (884279719003555 / 2 ^ 49)) = Some (- (884279719003555 / 2 ^ 49))"
  using round_double_frac [of "- 884279719003555" 49] by simp

lemma round_double_pi:
  "round_double (884279719003555 / 2 ^ 48) = Some (884279719003555 / 2 ^ 48)"
  using round_double_frac [of 884279719003555 48] by simp

lemma round_double_four_pi:
  "round_double (884279719003555 / 2 ^ 46) = Some (884279719003555 / 2 ^ 46)"
  using round_double_frac [of 884279719003555 46] by simp

lemmas round_double_evals =
  round_double_small_ints round_double_quarter
  round_double_huge round_double_half_pi round_double_neg_half_pi round_double_pi
  round_double_four_pi

lemmas planner_defs =
  n_div_radial_def n_div_angular_def py_mul_def py_truediv_def py_ceil_def math_pi_def

lemma n_div_radial_doubles:
  "n_div_radial round_double 5 1 = Inr 10"
  "n_div_radial round_double 5 (- 1) = Inr 4"
  "n_div_radial round_double 5 (1 / 2) = Inr 20"
  "n_div_radial round_double 5 (1 / 8) = Inr 80"
  "n_div_radial round_double 5 (1 / 2 ^ 1074) = Inl OverflowError"
  "n_div_radial round_double (1 / 8) (1 / 8) = Inr 4"
  "n_div_radial round_double (1 / 2) (1 / 8) = Inr 8"
  "n_div_radial round_double 1 (1 / 8) = Inr 16"
  using round_double_evals by (simp_all add: planner_defs)

lemma n_div_angular_doubles:
  "n_div_angular round_double (1 / 8) = Inr 13"
  "n_div_angular round_double (1 / 2) = Inr 4"
  "n_div_angular round_double (- 1) = Inr 4"
  using round_double_evals by (simp_all add: planner_defs)


subsection \<open>The planner where the quotient is rounded\<close>

text \<open>
  The arguments \<open>a = 1.05\<close> and \<open>h_band = 0.3\<close> are the doubles \<open>4728779608739021 / 2^52\<close>
  and \<open>5404319552844595 / 2^54\<close>.  The quotient \<open>(2 \<cdot> a) / h_band\<close> is rounded to the double
  just above 7, so that the radial count is 8.  With \<open>a = 0.9\<close>, the double
  \<open>8106479329266893 / 2^53\<close>, the exact quotient lies above 6 and is rounded to 6, so
  that the count is 6.
\<close>

lemma n_div_radial_rounded:
  "n_div_radial round_double (4728779608739021 / 2 ^ 52) (5404319552844595 / 2 ^ 54) = Inr 8"
proof -
  have prod: "round_double (2 * (4728779608739021 / 2 ^ 52)) = Some (4728779608739021 / 2 ^ 51)"
    using round_double_frac [of 4728779608739021 51] by simp
  have quot: "round_double (4728779608739021 / 2 ^ 51 / (5404319552844595 / 2 ^ 54))
      = Some (7881299347898369 / 2 ^ 50)"
    using round_double_in_binade [of 2 "4728779608739021 / 2 ^ 51 / (5404319552844595 / 2 ^ 54)"]
    by (simp add: rhe_def Let_def powr_neg_numeral)
  show ?thesis
    unfolding n_div_radial_def py_mul_def py_truediv_def py_ceil_def prod
    using quot by simp
qed


lemma n_div_radial_rounded_down:
  "n_div_radial round_double (8106479329266893 / 2 ^ 53) (5404319552844595 / 2 ^ 54) = Inr 6"
proof -
  have prod: "round_double (2 * (8106479329266893 / 2 ^ 53)) = Some (8106479329266893 / 2 ^ 52)"
    using round_double_frac [of 8106479329266893 52] by simp
  have quot: "round_double (8106479329266893 / 2 ^ 52 / (5404319552844595 / 2 ^ 54)) = Some 6"
    using round_double_in_binade [of 2 "8106479329266893 / 2 ^ 52 / (5404319552844595 / 2 ^ 54)"]
    by (simp add: rhe_def Let_def powr_neg_numeral)
  show ?thesis
    unfolding n_div_radial_def py_mul_def py_truediv_def py_ceil_def prod
    using quot by simp
qed

section \<open>Size/Division Planner\<close>

lemma n_div_radial_Inr:
  assumes "n_div_radial rnd a h = Inr n"
  shows "h \<noteq> 0 \<and> (\<exists>t q. rnd (2 * a) = Some t \<and> rnd (t / h) = Some q \<and> n = max 4 \<lceil>q\<rceil>)"
  using assms
  by (auto simp: n_div_radial_def py_mul_def py_truediv_def py_ceil_def
        split: if_splits option.splits)

lemma n_div_angular_Inr:
  assumes "n_div_angular rnd h = Inr n"
  shows "h \<noteq> 0 \<and>
     (\<exists>p q. rnd (0.5 * math_pi) = Some p \<and> rnd (p / h) = Some q \<and> n = max 4 \<lceil>q\<rceil>)"
  using assms
  by (auto simp: n_div_angular_def py_mul_def py_truediv_def py_ceil_def
        split: if_splits option.splits)






lemma spec_n_div_angular_large:
  assumes "5 / 2 \<le> r"
  shows "20 \<le> spec_n_div_angular r (2 * pi / 4) (1 / 8)"
proof -
  have "r * (2 * pi / 4) / (1 / 8) = 4 * pi * r" by simp
  moreover have "20 \<le> 4 * pi * r"
  proof -
    have "2 * (5 / 2) \<le> pi * r" using pi_ge_two assms by (intro mult_mono) auto
    then show ?thesis by simp
  qed
  then have "20 \<le> \<lceil>4 * pi * r\<rceil>" by (simp add: le_ceiling_iff)
  ultimately show ?thesis by (simp add: spec_n_div_angular_def)
qed




text \<open>
  C4, as stated, fails: the angular count is not the arc length at a reference radius
  over \<open>h_band\<close>.  For the disk \<open>a = 1/2\<close>, \<open>rInner = 3\<close>, \<open>rOuter = 5\<close> with four
  sectors (\<open>\<Delta>\<theta> = 2\<pi>/4\<close>) and \<open>h_band = 1/8\<close>, the code's count is 13, below the spec's
  formula at every radius of the sector: \<open>rInner - a\<close>, \<open>rInner\<close>, \<open>rInner + a\<close> and
  \<open>rOuter\<close>.
\<close>

theorem n_div_angular_not_radius_scaled:
  "n_div_angular round_double (1 / 8) = Inr 13 \<and>
   13 < spec_n_div_angular (3 - 1 / 2) (2 * pi / 4) (1 / 8) \<and>
   13 < spec_n_div_angular 3 (2 * pi / 4) (1 / 8) \<and>
   13 < spec_n_div_angular (3 + 1 / 2) (2 * pi / 4) (1 / 8) \<and>
   13 < spec_n_div_angular 5 (2 * pi / 4) (1 / 8)"
  using n_div_angular_doubles(1) spec_n_div_angular_large [of "3 - 1 / 2"]
    spec_n_div_angular_large [of 3] spec_n_div_angular_large [of "3 + 1 / 2"]
    spec_n_div_angular_large [of 5]
  by auto

section \<open>Disk Topology Builder\<close>

subsection \<open>One sector\<close>

lemma sector_nondegenerate:
  assumes "a < rInner"
  shows "\<exists>surfs' k' cs.
     sector a rInner rOuter h_band h_outer p_center ndr nda n i surfs k = (Inr surfs', k') \<and>
     calls k' = calls k @ cs \<and> transfinite_counts cs = [(ndr, nda)]"
  using assms
  by (cases "a + rInner < rOuter") (simp_all add: sector_defs kernel_defs Let_def)

lemma sector_degenerate:
  assumes "rInner = a"
  shows "\<exists>k' cs.
     sector a rInner rOuter h_band h_outer p_center ndr nda n i surfs k = (Inl IndexError, k') \<and>
     calls k' = calls k @ cs \<and> transfinite_counts cs = []"
  using assms
  by (cases "a + a < rOuter") (simp_all add: sector_defs kernel_defs Let_def)

lemma sector_groups:
  "\<exists>cs. calls (snd (sector a rInner rOuter h_band h_outer p_center ndr nda n i surfs k))
          = calls k @ cs \<and>
        filter is_group_call cs = [] \<and>
        next_group (snd (sector a rInner rOuter h_band h_outer p_center ndr nda n i surfs k))
          = next_group k"
proof -
  consider "a < rInner" | "rInner = a" | "rInner < a" by linarith
  then show ?thesis
  proof cases
    case 1
    then show ?thesis
      by (cases "a + rInner < rOuter") (simp_all add: sector_defs kernel_defs Let_def)
  next
    case 2
    then show ?thesis
      by (cases "a + a < rOuter") (simp_all add: sector_defs kernel_defs Let_def)
  next
    case 3
    then show ?thesis
      by (simp add: sector_defs kernel_defs Let_def)
  qed
qed

subsection \<open>The loop over the sectors\<close>

lemma sectors_nondegenerate:
  assumes "a < rInner"
  shows "\<exists>surfs' k' cs.
     sectors a rInner rOuter h_band h_outer p_center ndr nda n js surfs k = (Inr surfs', k') \<and>
     calls k' = calls k @ cs \<and> transfinite_counts cs = replicate (length js) (ndr, nda)"
proof (induction js arbitrary: surfs k)
  case Nil
  then show ?case by simp
next
  case (Cons j js)
  obtain s1 k1 cs1 where s1:
    "sector a rInner rOuter h_band h_outer p_center ndr nda n j surfs k = (Inr s1, k1)"
    "calls k1 = calls k @ cs1" "transfinite_counts cs1 = [(ndr, nda)]"
    using sector_nondegenerate [OF assms] by blast
  obtain s2 k2 cs2 where s2:
    "sectors a rInner rOuter h_band h_outer p_center ndr nda n js s1 k1 = (Inr s2, k2)"
    "calls k2 = calls k1 @ cs2" "transfinite_counts cs2 = replicate (length js) (ndr, nda)"
    using Cons.IH by blast
  show ?case
    using s1 s2 by simp
qed

lemma sectors_groups:
  "\<exists>cs. calls (snd (sectors a rInner rOuter h_band h_outer p_center ndr nda n js surfs k))
          = calls k @ cs \<and>
        filter is_group_call cs = [] \<and>
        next_group (snd (sectors a rInner rOuter h_band h_outer p_center ndr nda n js surfs k))
          = next_group k"
proof (induction js arbitrary: surfs k)
  case Nil
  then show ?case by simp
next
  case (Cons j js)
  obtain r1 k1 where r1:
    "sector a rInner rOuter h_band h_outer p_center ndr nda n j surfs k = (r1, k1)"
    by (cases "sector a rInner rOuter h_band h_outer p_center ndr nda n j surfs k")
  obtain cs1 where c1:
    "calls k1 = calls k @ cs1" "filter is_group_call cs1 = []" "next_group k1 = next_group k"
    using sector_groups [of a rInner rOuter h_band h_outer p_center ndr nda n j surfs k] r1
    by auto
  show ?case
  proof (cases r1)
    case (Inl e)
    then show ?thesis using r1 c1 by simp
  next
    case (Inr s1)
    obtain cs2 where c2:
      "calls (snd (sectors a rInner rOuter h_band h_outer p_center ndr nda n js s1 k1))
         = calls k1 @ cs2"
      "filter is_group_call cs2 = []"
      "next_group (snd (sectors a rInner rOuter h_band h_outer p_center ndr nda n js s1 k1))
         = next_group k1"
      using Cons.IH by blast
    show ?thesis using r1 Inr c1 c2 by simp
  qed
qed

subsection \<open>The whole run\<close>

lemma Transfinite_Disk_counts:
  assumes "0 < rInner - a" "rInner + a \<le> rOuter"
    and "n_div_radial rnd a h_band = Inr ndr" "n_div_angular rnd h_band = Inr nda"
  shows "\<exists>k' cs.
     Transfinite_Disk rnd a rInner rOuter h_band h_outer n_sectors im om inm obn k
       = (Inr (), k') \<and>
     calls k' = calls k @ cs \<and> transfinite_counts cs = replicate 4 (ndr, nda)"
proof -
  let ?centre = "AddPoint 0 0 0 (meshSizeAt a rInner h_band h_outer 0 0)"
  obtain cs0 where cs0: "calls (open_model k) = calls k @ cs0" "transfinite_counts cs0 = []"
    using open_model_quiet [of k] by blast
  define pc where "pc = next_point (open_model k)"
  define k5 where
    "k5 = snd (addPoint 0 0 0 (meshSizeAt a rInner h_band h_outer 0 0) (open_model k))"
  have k5: "calls k5 = calls k @ cs0 @ [?centre pc]"
    by (simp add: k5_def pc_def addPoint_def cs0)
  have lt: "a < rInner" using assms(1) by simp
  obtain surfs' k6 cs6 where run:
    "sectors a rInner rOuter h_band h_outer pc ndr nda 4 (py_range 4) ([], []) k5
       = (Inr surfs', k6)"
    "calls k6 = calls k5 @ cs6"
    "transfinite_counts cs6 = replicate (length (py_range 4)) (ndr, nda)"
    using sectors_nondegenerate [OF lt] by blast
  obtain ins outs where surfs': "surfs' = (ins, outs)" by (cases surfs')
  have "Transfinite_Disk rnd a rInner rOuter h_band h_outer n_sectors im om inm obn k =
        (Inr (), synchronize (setPhysicalName 2 (next_group k6 + 1) om
           (snd (addPhysicalGroup 2 outs (setPhysicalName 2 (next_group k6) im
              (snd (addPhysicalGroup 2 ins k6)))))))"
    using assms run(1) lt
    by (simp add: Transfinite_Disk_def Let_def addPoint_def pc_def k5_def surfs'
          addPhysicalGroup_def setPhysicalName_def)
  moreover have "transfinite_counts (cs0 @ [?centre pc] @ cs6 @
        [AddPhysicalGroup 2 ins (next_group k6), SetPhysicalName 2 (next_group k6) im,
         AddPhysicalGroup 2 outs (next_group k6 + 1), SetPhysicalName 2 (next_group k6 + 1) om,
         Synchronize]) = replicate 4 (ndr, nda)"
    using cs0(2) run(3) by (simp add: py_range_4 replicate_4)
  ultimately show ?thesis
    using run(2) k5
    by (simp add: addPhysicalGroup_def setPhysicalName_def synchronize_def)
qed

lemma Transfinite_Disk_degenerate:
  assumes "rInner = a" "rInner + a \<le> rOuter"
    and "n_div_radial rnd a h_band = Inr ndr" "n_div_angular rnd h_band = Inr nda"
  shows "\<exists>k' cs.
     Transfinite_Disk rnd a rInner rOuter h_band h_outer n_sectors im om inm obn k
       = (Inl IndexError, k') \<and>
     calls k' = calls k @ cs \<and> transfinite_counts cs = []"
proof -
  let ?centre = "AddPoint 0 0 0 (meshSizeAt a rInner h_band h_outer 0 0)"
  obtain cs0 where cs0: "calls (open_model k) = calls k @ cs0" "transfinite_counts cs0 = []"
    using open_model_quiet [of k] by blast
  define pc where "pc = next_point (open_model k)"
  define k5 where
    "k5 = snd (addPoint 0 0 0 (meshSizeAt a rInner h_band h_outer 0 0) (open_model k))"
  have k5: "calls k5 = calls k @ cs0 @ [?centre pc]"
    by (simp add: k5_def pc_def addPoint_def cs0)
  obtain k6 cs6 where run:
    "sector a rInner rOuter h_band h_outer pc ndr nda 4 0 ([], []) k5 = (Inl IndexError, k6)"
    "calls k6 = calls k5 @ cs6" "transfinite_counts cs6 = []"
    using sector_degenerate [OF assms(1)] by blast
  have "Transfinite_Disk rnd a rInner rOuter h_band h_outer n_sectors im om inm obn k
          = (Inl IndexError, k6)"
    using assms run(1)
    by (simp add: Transfinite_Disk_def Let_def addPoint_def pc_def k5_def py_range_4)
  then show ?thesis
    using run(2,3) k5 cs0(2) by simp
qed

lemma Transfinite_Disk_groups:
  "\<exists>ins outs cs.
     calls (snd (Transfinite_Disk rnd a rInner rOuter h_band h_outer n_sectors im om inm obn k))
       = calls k @ cs \<and>
     filter is_group_call cs =
       (case fst (Transfinite_Disk rnd a rInner rOuter h_band h_outer n_sectors im om inm obn k)
        of
          Inl e \<Rightarrow> []
        | Inr u \<Rightarrow>
            [AddPhysicalGroup 2 ins (next_group k), SetPhysicalName 2 (next_group k) im,
             AddPhysicalGroup 2 outs (next_group k + 1),
             SetPhysicalName 2 (next_group k + 1) om])"
proof -
  let ?centre = "AddPoint 0 0 0 (meshSizeAt a rInner h_band h_outer 0 0)"
  obtain cs0 where cs0: "calls (open_model k) = calls k @ cs0" "filter is_group_call cs0 = []"
    using open_model_quiet [of k] by blast
  define pc where "pc = next_point (open_model k)"
  define k5 where
    "k5 = snd (addPoint 0 0 0 (meshSizeAt a rInner h_band h_outer 0 0) (open_model k))"
  have k5: "calls k5 = calls k @ cs0 @ [?centre pc]" "next_group k5 = next_group k"
    by (simp_all add: k5_def pc_def addPoint_def cs0 open_model_frame)
  consider
      (invalid) "rInner - a < 0 \<or> rInner + a > rOuter"
    | (radial) e where "\<not> (rInner - a < 0 \<or> rInner + a > rOuter)"
        "n_div_radial rnd a h_band = Inl e"
    | (angular) ndr e where "\<not> (rInner - a < 0 \<or> rInner + a > rOuter)"
        "n_div_radial rnd a h_band = Inr ndr" "n_div_angular rnd h_band = Inl e"
    | (planned) ndr nda where "\<not> (rInner - a < 0 \<or> rInner + a > rOuter)"
        "n_div_radial rnd a h_band = Inr ndr" "n_div_angular rnd h_band = Inr nda"
    by (cases "n_div_radial rnd a h_band"; cases "n_div_angular rnd h_band") auto
  then show ?thesis
  proof cases
    case invalid
    then show ?thesis using cs0 by (auto simp: Transfinite_Disk_def Let_def)
  next
    case radial
    then show ?thesis using cs0 by (auto simp: Transfinite_Disk_def Let_def)
  next
    case angular
    then show ?thesis using cs0 by (auto simp: Transfinite_Disk_def Let_def)
  next
    case planned
    obtain r6 k6 where run:
      "sectors a rInner rOuter h_band h_outer pc ndr nda 4 (py_range 4) ([], []) k5 = (r6, k6)"
      by (cases "sectors a rInner rOuter h_band h_outer pc ndr nda 4 (py_range 4) ([], []) k5")
    obtain cs6 where cs6: "calls k6 = calls k5 @ cs6" "filter is_group_call cs6 = []"
      "next_group k6 = next_group k5"
      using sectors_groups [of a rInner rOuter h_band h_outer pc ndr nda 4 "py_range 4"
          "([], [])" k5] run
      by auto
    show ?thesis
    proof (cases r6)
      case (Inl e)
      then show ?thesis using planned run cs6 k5 cs0(2)
        by (simp add: Transfinite_Disk_def Let_def addPoint_def pc_def k5_def)
    next
      case (Inr surfs')
      obtain ins outs where surfs': "surfs' = (ins, outs)" by (cases surfs')
      have "calls (snd (Transfinite_Disk rnd a rInner rOuter h_band h_outer n_sectors
                          im om inm obn k))
          = calls k @ (cs0 @ [?centre pc] @ cs6 @
            [AddPhysicalGroup 2 ins (next_group k), SetPhysicalName 2 (next_group k) im,
             AddPhysicalGroup 2 outs (next_group k + 1), SetPhysicalName 2 (next_group k + 1) om,
             Synchronize])"
        and "fst (Transfinite_Disk rnd a rInner rOuter h_band h_outer n_sectors im om inm obn k)
               = Inr ()"
        using planned run Inr surfs' cs6 k5
        by (simp_all add: Transfinite_Disk_def Let_def addPoint_def pc_def k5_def
              addPhysicalGroup_def setPhysicalName_def synchronize_def)
      then show ?thesis using cs0(2) cs6(2) by auto
    qed
  qed
qed

section \<open>Claims about the Disk Topology Builder\<close>

text \<open>
  C1 asks that the number of sectors built equal the \<open>n_sectors\<close> argument.  The code
  builds four sectors whatever the argument is (line 74 overwrites it): for every valid
  input with \<open>rInner - a > 0\<close> for which the planner produces its counts, every
  \<open>n_sectors\<close> and every kernel state, the run succeeds and exactly four sectors are
  built.
\<close>

theorem Transfinite_Disk_builds_four_sectors:
  assumes "0 < rInner - a" "rInner + a \<le> rOuter"
    and "n_div_radial rnd a h_band = Inr ndr" "n_div_angular rnd h_band = Inr nda"
  shows "\<exists>k'.
     Transfinite_Disk rnd a rInner rOuter h_band h_outer n_sectors
        InnerMaterialName OuterMaterialName InterfaceName OuterBoundaryName k = (Inr (), k') \<and>
     sectors_built k k' = 4"
proof -
  obtain k' cs where run:
    "Transfinite_Disk rnd a rInner rOuter h_band h_outer n_sectors
        InnerMaterialName OuterMaterialName InterfaceName OuterBoundaryName k = (Inr (), k')"
    "calls k' = calls k @ cs"
    "transfinite_counts cs = replicate 4 (ndr, nda)"
    using Transfinite_Disk_counts [OF assms] by blast
  have "new_calls k k' = cs" using run(2) by (rule new_calls_append)
  then have "sectors_built k k' = 4" using run(3) by (simp add: sectors_built_def)
  then show ?thesis using run(1) by blast
qed

text \<open>
  With \<open>n_sectors = 6\<close> on a fresh kernel, in double arithmetic (all the arguments are
  doubles, and so is every intermediate value): four sectors, not six.
\<close>

theorem Transfinite_Disk_builds_four_sectors_witness:
  "(0 :: real) < 1 - 1 / 8 \<and> (1 + 1 / 8 :: real) \<le> 3 \<and>
   n_div_radial round_double (1 / 8) (1 / 8) = Inr 4 \<and>
   n_div_angular round_double (1 / 8) = Inr 13 \<and>
   (\<exists>k'.
      Transfinite_Disk round_double (1 / 8) 1 3 (1 / 8) (1 / 2) 6
         ''InnerMaterial'' ''OuterMaterial'' ''Interface'' ''Outer'' fresh_kernel = (Inr (), k') \<and>
      sectors_built fresh_kernel k' = 4)"
proof -
  have h1: "(0 :: real) < 1 - 1 / 8" and h2: "(1 + 1 / 8 :: real) \<le> 3"
    by simp_all
  note h3 = n_div_radial_doubles(6) and h4 = n_div_angular_doubles(1)
  show ?thesis
    by (rule conjI [OF h1 conjI [OF h2 conjI [OF h3 conjI [OF h4
          Transfinite_Disk_builds_four_sectors [OF h1 h2 h3 h4]]]]])
qed




text \<open>
  C3 asks that the degenerate case \<open>rInner = a\<close> succeed with structured constraints on
  every band patch.  The code does not: for every such input that passes the parameter
  checks and the planner, the run ends with \<open>IndexError\<close> in the first sector (the
  three-curve list \<open>curves_ib\<close> is read at index 3, line 146), and no structured
  constraint has been requested.
\<close>

theorem Transfinite_Disk_degenerate_IndexError:
  assumes "rInner = a" "rInner + a \<le> rOuter"
    and "n_div_radial rnd a h_band = Inr ndr" "n_div_angular rnd h_band = Inr nda"
  shows "\<exists>k'.
     Transfinite_Disk rnd a rInner rOuter h_band h_outer n_sectors
        InnerMaterialName OuterMaterialName InterfaceName OuterBoundaryName k
       = (Inl IndexError, k') \<and>
     transfinite_counts (new_calls k k') = []"
proof -
  obtain k' cs where run:
    "Transfinite_Disk rnd a rInner rOuter h_band h_outer n_sectors
        InnerMaterialName OuterMaterialName InterfaceName OuterBoundaryName k
       = (Inl IndexError, k')"
    "calls k' = calls k @ cs" "transfinite_counts cs = []"
    using Transfinite_Disk_degenerate [OF assms] by blast
  have "new_calls k k' = cs" using run(2) by (rule new_calls_append)
  then show ?thesis using run(1,3) by auto
qed

theorem Transfinite_Disk_degenerate_IndexError_witness:
  "(1 :: real) = 1 \<and> (1 + 1 :: real) \<le> 3 \<and>
   n_div_radial round_double 1 (1 / 8) = Inr 16 \<and>
   n_div_angular round_double (1 / 8) = Inr 13 \<and>
   (\<exists>k'.
      Transfinite_Disk round_double 1 1 3 (1 / 8) (1 / 2) 4
         ''InnerMaterial'' ''OuterMaterial'' ''Interface'' ''Outer'' fresh_kernel
        = (Inl IndexError, k') \<and>
      transfinite_counts (new_calls fresh_kernel k') = [])"
proof -
  have h1: "(1 :: real) = 1" and h2: "(1 + 1 :: real) \<le> 3"
    by simp_all
  note h3 = n_div_radial_doubles(8) and h4 = n_div_angular_doubles(1)
  show ?thesis
    by (rule conjI [OF h1 conjI [OF h2 conjI [OF h3 conjI [OF h4
          Transfinite_Disk_degenerate_IndexError [OF h1 h2 h3 h4]]]]])
qed

text \<open>
  C4, amended: in double arithmetic, \<open>n_div_radial = max(4, ceil((2 \<cdot> a) / h_band))\<close> and
  \<open>n_div_angular = max(4, ceil((0.5 \<cdot> math.pi) / h_band))\<close>, each product and quotient
  rounded to a double, whenever they are produced (then \<open>h_band \<noteq> 0\<close> and every rounded
  value is finite).  The angular count depends on \<open>h_band\<close> alone: it uses the fixed arc
  length \<open>\<pi>/2\<close>, not a reference radius and not the span of the requested sector
  count.  These are the counts carried by the structured-constraint request of each
  of the four sectors of a run with \<open>rInner - a > 0\<close>.
\<close>

theorem planner_division_counts:
  assumes "0 < rInner - a" "rInner + a \<le> rOuter"
    and "n_div_radial rnd a h_band = Inr ndr" "n_div_angular rnd h_band = Inr nda"
  shows "h_band \<noteq> 0 \<and>
     (\<exists>t q. rnd (2 * a) = Some t \<and> rnd (t / h_band) = Some q \<and> ndr = max 4 \<lceil>q\<rceil>) \<and>
     (\<exists>p q. rnd (0.5 * math_pi) = Some p \<and> rnd (p / h_band) = Some q \<and> nda = max 4 \<lceil>q\<rceil>) \<and>
     (\<exists>k'.
        Transfinite_Disk rnd a rInner rOuter h_band h_outer n_sectors
           InnerMaterialName OuterMaterialName InterfaceName OuterBoundaryName k = (Inr (), k') \<and>
        transfinite_counts (new_calls k k') = replicate 4 (ndr, nda))"
proof -
  have radial: "h_band \<noteq> 0 \<and>
      (\<exists>t q. rnd (2 * a) = Some t \<and> rnd (t / h_band) = Some q \<and> ndr = max 4 \<lceil>q\<rceil>)"
    using assms(3) by (rule n_div_radial_Inr)
  have angular:
    "\<exists>p q. rnd (0.5 * math_pi) = Some p \<and> rnd (p / h_band) = Some q \<and> nda = max 4 \<lceil>q\<rceil>"
    using n_div_angular_Inr [OF assms(4)] by blast
  obtain k' cs where run:
    "Transfinite_Disk rnd a rInner rOuter h_band h_outer n_sectors
        InnerMaterialName OuterMaterialName InterfaceName OuterBoundaryName k = (Inr (), k')"
    "calls k' = calls k @ cs"
    "transfinite_counts cs = replicate 4 (ndr, nda)"
    using Transfinite_Disk_counts [OF assms] by blast
  have "new_calls k k' = cs" using run(2) by (rule new_calls_append)
  then have requests: "\<exists>k'.
        Transfinite_Disk rnd a rInner rOuter h_band h_outer n_sectors
           InnerMaterialName OuterMaterialName InterfaceName OuterBoundaryName k = (Inr (), k') \<and>
        transfinite_counts (new_calls k k') = replicate 4 (ndr, nda)"
    using run(1,3) by auto
  show ?thesis using radial angular requests by blast
qed

theorem planner_division_counts_witness:
  "(0 :: real) < 3 - 1 / 2 \<and> (3 + 1 / 2 :: real) \<le> 5 \<and>
   n_div_radial round_double (1 / 2) (1 / 8) = Inr 8 \<and>
   n_div_angular round_double (1 / 8) = Inr 13 \<and>
   (1 / 8 :: real) \<noteq> 0 \<and>
   (\<exists>t q. round_double (2 * (1 / 2)) = Some t \<and> round_double (t / (1 / 8)) = Some q \<and>
          (8 :: int) = max 4 \<lceil>q\<rceil>) \<and>
   (\<exists>p q. round_double (0.5 * math_pi) = Some p \<and> round_double (p / (1 / 8)) = Some q \<and>
          (13 :: int) = max 4 \<lceil>q\<rceil>) \<and>
   (\<exists>k'.
      Transfinite_Disk round_double (1 / 2) 3 5 (1 / 8) (1 / 2) 4
         ''InnerMaterial'' ''OuterMaterial'' ''Interface'' ''Outer'' fresh_kernel = (Inr (), k') \<and>
      transfinite_counts (new_calls fresh_kernel k') = replicate 4 (8, 13))"
proof -
  have h1: "(0 :: real) < 3 - 1 / 2" and h2: "(3 + 1 / 2 :: real) \<le> 5"
    by simp_all
  note h3 = n_div_radial_doubles(7) and h4 = n_div_angular_doubles(1)
  show ?thesis
    by (rule conjI [OF h1 conjI [OF h2 conjI [OF h3 conjI [OF h4
          planner_division_counts [OF h1 h2 h3 h4]]]]])
qed

text \<open>
  C5: in the pass of the loop for one sector, started in any kernel state with positive
  curve handles and with \<open>rInner - a \<ge> 0\<close>, the arc between the two points at radius
  \<open>rInner\<close> (\<open>mid0\<close> and \<open>mid1\<close>) is created by exactly one call; no other call creates a
  curve with its handle \<open>h\<close>; exactly two curve loops refer to \<open>h\<close>, the first holding
  \<open>h\<close> once and \<open>-h\<close> never, the second holding \<open>-h\<close> once and \<open>h\<close> never; and each of the
  two loops bounds exactly one plane surface.
\<close>

theorem sector_interface_arc_shared:
  assumes "0 \<le> rInner - a" "0 < next_curve k"
  shows "let p = fst (sector_points a rInner rOuter h_band h_outer
                   (2 * pi * real_of_int i / real_of_int n)
                   (2 * pi * real_of_int (i + 1) / real_of_int n) k);
             new = new_calls k
                     (snd (sector a rInner rOuter h_band h_outer p_center ndr nda n i surfs k))
         in \<exists>h cs1 l1 s1 cs2 l2 s2.
              filter (arc_between (mid0 p) (mid1 p)) new
                = [AddCircleArc (mid0 p) p_center (mid1 p) h] \<and>
              filter (creates_curve h) new = [AddCircleArc (mid0 p) p_center (mid1 p) h] \<and>
              filter (references_curve h) new = [AddCurveLoop cs1 l1, AddCurveLoop cs2 l2] \<and>
              count_list cs1 h = 1 \<and> count_list cs1 (- h) = 0 \<and>
              count_list cs2 (- h) = 1 \<and> count_list cs2 h = 0 \<and>
              filter (bounded_by l1) new = [AddPlaneSurface [l1] s1] \<and>
              filter (bounded_by l2) new = [AddPlaneSurface [l2] s2]"
proof (cases "a < rInner")
  case True
  show ?thesis
    unfolding Let_def
    apply (rule exI [of _ "next_curve k + 1"])
    using True assms(2)
    by (cases "a + rInner < rOuter") (simp_all add: sector_defs kernel_defs new_calls_def Let_def)
next
  case False
  with assms have eq: "rInner = a" by simp
  show ?thesis
    unfolding Let_def
    apply (rule exI [of _ "next_curve k + 1"])
    using eq assms(2)
    by (cases "a + a < rOuter") (simp_all add: sector_defs kernel_defs new_calls_def Let_def)
qed

theorem sector_interface_arc_shared_witness:
  "(0 :: real) \<le> 1 - 1 / 10 \<and> 0 < next_curve fresh_kernel \<and>
   (let p = fst (sector_points (1 / 10) 1 3 (1 / 10) (1 / 2)
                   (2 * pi * real_of_int 0 / real_of_int 4)
                   (2 * pi * real_of_int (0 + 1) / real_of_int 4) fresh_kernel);
        new = new_calls fresh_kernel
                (snd (sector (1 / 10) 1 3 (1 / 10) (1 / 2) 1 20 16 4 0 ([], []) fresh_kernel))
    in \<exists>h cs1 l1 s1 cs2 l2 s2.
         filter (arc_between (mid0 p) (mid1 p)) new = [AddCircleArc (mid0 p) 1 (mid1 p) h] \<and>
         filter (creates_curve h) new = [AddCircleArc (mid0 p) 1 (mid1 p) h] \<and>
         filter (references_curve h) new = [AddCurveLoop cs1 l1, AddCurveLoop cs2 l2] \<and>
         count_list cs1 h = 1 \<and> count_list cs1 (- h) = 0 \<and>
         count_list cs2 (- h) = 1 \<and> count_list cs2 h = 0 \<and>
         filter (bounded_by l1) new = [AddPlaneSurface [l1] s1] \<and>
         filter (bounded_by l2) new = [AddPlaneSurface [l2] s2])"
proof -
  have h1: "(0 :: real) \<le> 1 - 1 / 10" by simp
  have h2: "0 < next_curve fresh_kernel" by (simp add: fresh_kernel_def)
  show ?thesis
    by (rule conjI [OF h1 conjI [OF h2 sector_interface_arc_shared [OF h1 h2]]])
qed

text \<open>
  C10: \<open>InterfaceName\<close> and \<open>OuterBoundaryName\<close> have no effect.  Two calls that differ
  only in these two arguments give the same result and the same kernel state, calls
  included; and the physical-group calls of a run are none when it fails and, when it
  succeeds, exactly two groups of surfaces (dimension 2) named \<open>InnerMaterialName\<close> and
  \<open>OuterMaterialName\<close>.
\<close>

theorem Transfinite_Disk_boundary_names_unused:
  "Transfinite_Disk rnd a rInner rOuter h_band h_outer n_sectors
      InnerMaterialName OuterMaterialName InterfaceName OuterBoundaryName k =
   Transfinite_Disk rnd a rInner rOuter h_band h_outer n_sectors
      InnerMaterialName OuterMaterialName InterfaceName' OuterBoundaryName' k \<and>
   (\<exists>ins outs.
      filter is_group_call
        (new_calls k (snd (Transfinite_Disk rnd a rInner rOuter h_band h_outer n_sectors
            InnerMaterialName OuterMaterialName InterfaceName OuterBoundaryName k))) =
      (case fst (Transfinite_Disk rnd a rInner rOuter h_band h_outer n_sectors
            InnerMaterialName OuterMaterialName InterfaceName OuterBoundaryName k) of
         Inl e \<Rightarrow> []
       | Inr u \<Rightarrow>
           [AddPhysicalGroup 2 ins (next_group k),
            SetPhysicalName 2 (next_group k) InnerMaterialName,
            AddPhysicalGroup 2 outs (next_group k + 1),
            SetPhysicalName 2 (next_group k + 1) OuterMaterialName]))"
proof -
  have same: "Transfinite_Disk rnd a rInner rOuter h_band h_outer n_sectors
      InnerMaterialName OuterMaterialName InterfaceName OuterBoundaryName k =
   Transfinite_Disk rnd a rInner rOuter h_band h_outer n_sectors
      InnerMaterialName OuterMaterialName InterfaceName' OuterBoundaryName' k"
    by (simp add: Transfinite_Disk_def)
  obtain ins outs cs where g:
    "calls (snd (Transfinite_Disk rnd a rInner rOuter h_band h_outer n_sectors
        InnerMaterialName OuterMaterialName InterfaceName OuterBoundaryName k)) = calls k @ cs"
    "filter is_group_call cs =
       (case fst (Transfinite_Disk rnd a rInner rOuter h_band h_outer n_sectors
            InnerMaterialName OuterMaterialName InterfaceName OuterBoundaryName k) of
          Inl e \<Rightarrow> []
        | Inr u \<Rightarrow>
            [AddPhysicalGroup 2 ins (next_group k),
             SetPhysicalName 2 (next_group k) InnerMaterialName,
             AddPhysicalGroup 2 outs (next_group k + 1),
             SetPhysicalName 2 (next_group k + 1) OuterMaterialName])"
    using Transfinite_Disk_groups by blast
  have "new_calls k (snd (Transfinite_Disk rnd a rInner rOuter h_band h_outer n_sectors
        InnerMaterialName OuterMaterialName InterfaceName OuterBoundaryName k)) = cs"
    using g(1) by (rule new_calls_append)
  then have groups: "\<exists>ins outs.
      filter is_group_call
        (new_calls k (snd (Transfinite_Disk rnd a rInner rOuter h_band h_outer n_sectors
            InnerMaterialName OuterMaterialName InterfaceName OuterBoundaryName k))) =
      (case fst (Transfinite_Disk rnd a rInner rOuter h_band h_outer n_sectors
            InnerMaterialName OuterMaterialName InterfaceName OuterBoundaryName k) of
         Inl e \<Rightarrow> []
       | Inr u \<Rightarrow>
           [AddPhysicalGroup 2 ins (next_group k),
            SetPhysicalName 2 (next_group k) InnerMaterialName,
            AddPhysicalGroup 2 outs (next_group k + 1),
            SetPhysicalName 2 (next_group k + 1) OuterMaterialName])"
    using g(2) by auto
  show ?thesis using same groups by (rule conjI)
qed

section \<open>Claims about the Sphere Wedge Builder\<close>

subsection \<open>The calls of the constraint pass\<close>

lemma classify_boundary_calls:
  "\<exists>cs. calls (snd (classify_boundary G bnd acc k)) = calls k @ cs \<and> filter is_revolve cs = []"
proof (induction G bnd acc k rule: classify_boundary.induct)
  case (1 G acc k)
  then show ?case by simp
next
  case (2 G dim_c tag_c bnd corner_points radial_curves curved_curves k)
  show ?case
  proof (cases "dim_c = 1")
    case True
    obtain etype k1 where e: "getType G 1 \<bar>tag_c\<bar> k = (etype, k1)"
      by (cases "getType G 1 \<bar>tag_c\<bar> k")
    obtain endpts k2 where b: "getBoundary G [(1, tag_c)] k1 = (endpts, k2)"
      by (cases "getBoundary G [(1, tag_c)] k1")
    have k2: "calls k2 = calls k @ [GetType 1 \<bar>tag_c\<bar>, GetBoundary [(1, tag_c)]]"
      using e b by (auto simp: query_defs)
    from "2.IH"(1) [OF True e [symmetric] refl refl refl b [symmetric] refl refl]
    obtain cs where "calls (snd (classify_boundary G bnd
        (if length endpts = 2 then let pt_a = snd (endpts ! 0); pt_b = snd (endpts ! 1)
                      in add_corner (add_corner corner_points pt_a) pt_b else corner_points,
         if etype \<noteq> ''Circle'' \<and> etype = ''Line'' then radial_curves @ [tag_c]
         else radial_curves,
         if etype = ''Circle'' then curved_curves @ [tag_c] else curved_curves) k2))
        = calls k2 @ cs"
      "filter is_revolve cs = []"
      by blast
    then show ?thesis using True e b k2 by (simp add: Let_def)
  next
    case False
    then show ?thesis using "2.IH"(2) by simp
  qed
qed

lemma resolve_corners_calls:
  "\<exists>cs. calls (snd (resolve_corners s_tag use_arr corner_points k)) = calls k @ cs \<and>
        filter is_revolve cs = []"
  by (auto simp: resolve_corners_def setTransfiniteSurface_def Let_def
        split: sum.splits list.splits)

lemma surface_arrangement_calls:
  "\<exists>cs. calls (snd (surface_arrangement G surface_type s_tag k)) = calls k @ cs \<and>
        filter is_revolve cs = []"
  by (simp add: surface_arrangement_def getBoundingBox_def Let_def)

lemma sweep_surface_calls:
  "\<exists>cs radial_curves curved_curves.
     calls (snd (sweep_surface G n_div_rad n_div_curved bumpcoef surface_type s_tag k))
       = calls k @ cs \<and>
     filter is_revolve cs = [] \<and>
     SetTransfinite radial_curves curved_curves
        [(s_tag, fst (surface_arrangement G surface_type s_tag k))]
        n_div_rad n_div_curved (Some bumpcoef) \<in> set cs"
proof -
  obtain use_arr k1 where a: "surface_arrangement G surface_type s_tag k = (use_arr, k1)"
    by (cases "surface_arrangement G surface_type s_tag k")
  obtain cs1 where cs1: "calls k1 = calls k @ cs1" "filter is_revolve cs1 = []"
    using surface_arrangement_calls [of G surface_type s_tag k] a by auto
  obtain bnd k2 where b: "getBoundary G [(2, s_tag)] k1 = (bnd, k2)"
    by (cases "getBoundary G [(2, s_tag)] k1")
  have k2: "calls k2 = calls k1 @ [GetBoundary [(2, s_tag)]]"
    using b by (auto simp: getBoundary_def)
  obtain cp rc cc k3 where c: "classify_boundary G bnd ([], [], []) k2 = ((cp, rc, cc), k3)"
    by (cases "classify_boundary G bnd ([], [], []) k2") auto
  obtain cs3 where cs3: "calls k3 = calls k2 @ cs3" "filter is_revolve cs3 = []"
    using classify_boundary_calls [of G bnd "([], [], [])" k2] c by auto
  define k4 where
    "k4 = set_transfinite rc cc [(s_tag, use_arr)] n_div_rad n_div_curved (Some bumpcoef) k3"
  have k4: "calls k4 =
      calls k3 @ [SetTransfinite rc cc [(s_tag, use_arr)] n_div_rad n_div_curved (Some bumpcoef)]"
    by (simp add: k4_def set_transfinite_def)
  obtain cs5 where cs5: "calls (snd (resolve_corners s_tag use_arr cp k4)) = calls k4 @ cs5"
    "filter is_revolve cs5 = []"
    using resolve_corners_calls by blast
  have "sweep_surface G n_div_rad n_div_curved bumpcoef surface_type s_tag k
          = resolve_corners s_tag use_arr cp k4"
    by (simp add: sweep_surface_def a b c k4_def)
  then show ?thesis
    using cs1 k2 cs3 k4 cs5 a by auto
qed

lemma sweep_surfaces_calls:
  "\<exists>cs. calls (snd (sweep_surfaces G n_div_rad n_div_curved bumpcoef surface_type new_surfs k))
          = calls k @ cs \<and>
        filter is_revolve cs = []"
proof (induction new_surfs arbitrary: k)
  case Nil
  then show ?case by simp
next
  case (Cons s_tag new_surfs)
  obtain r1 k1 where r1:
    "sweep_surface G n_div_rad n_div_curved bumpcoef surface_type s_tag k = (r1, k1)"
    by (cases "sweep_surface G n_div_rad n_div_curved bumpcoef surface_type s_tag k")
  obtain cs1 where cs1: "calls k1 = calls k @ cs1" "filter is_revolve cs1 = []"
    using sweep_surface_calls [of G n_div_rad n_div_curved bumpcoef surface_type s_tag k] r1
    by auto
  show ?case
  proof (cases r1)
    case (Inl e)
    then show ?thesis using r1 cs1 by simp
  next
    case (Inr u)
    obtain cs2 where
      "calls (snd (sweep_surfaces G n_div_rad n_div_curved bumpcoef surface_type new_surfs k1))
         = calls k1 @ cs2"
      "filter is_revolve cs2 = []"
      using Cons.IH by blast
    then show ?thesis using r1 Inr cs1 by simp
  qed
qed

lemma apply_transfinite_sweep_calls:
  "\<exists>cs. calls (snd (apply_transfinite_sweep G sweep_results n_div_rad n_div_curved bumpcoef
                      surface_type k))
          = calls k @ cs \<and> filter is_revolve cs = []"
proof -
  obtain cs where
    "calls (snd (sweep_surfaces G n_div_rad n_div_curved bumpcoef surface_type
        (map snd (filter (\<lambda>(d, tag). d = 2) sweep_results)) (synchronize k)))
       = calls (synchronize k) @ cs"
    "filter is_revolve cs = []"
    using sweep_surfaces_calls by blast
  then show ?thesis
    by (simp add: apply_transfinite_sweep_def synchronize_def)
qed

subsection \<open>Arrangement label\<close>



subsection \<open>Corner Resolver\<close>

lemma missing_not_corner:
  assumes "find_missing_numbers corner_points rng = m # ms"
  shows "m \<notin> set corner_points"
proof -
  have "m \<in> set (filter (\<lambda>x. x \<notin> set corner_points) rng)"
    using assms by (simp add: find_missing_numbers_def)
  then show ?thesis by simp
qed

lemma missing_nonempty:
  assumes "length corner_points < card (set rng)"
  shows "find_missing_numbers corner_points rng \<noteq> []"
proof
  assume "find_missing_numbers corner_points rng = []"
  then have "set rng \<subseteq> set corner_points"
    by (auto simp: find_missing_numbers_def filter_empty_conv)
  then have "card (set rng) \<le> card (set corner_points)"
    by (intro card_mono) auto
  moreover have "card (set corner_points) \<le> length corner_points"
    by (rule card_length)
  ultimately show False using assms by simp
qed

lemma card_arange: "card (set [2..20 :: int]) = 19"
proof -
  have "set [2..20 :: int] = {2..20}" by (rule set_upto)
  then show ?thesis by simp
qed

text \<open>
  C7 asks that the Corner Resolver complete without error on every corner list of
  exactly three entries that does not hold the centre point 1.  With the missing-ID
  search as the spec describes it, the code never does: the ID it resolves is absent
  from the corner list by construction, so \<open>corner_points.index\<close> of it (line 154) raises
  \<open>ValueError\<close>, and no structured surface is declared.
\<close>

theorem resolve_corners_missing_id_raises:
  assumes "length corner_points = 3" "1 \<notin> set corner_points"
  shows "resolve_corners s_tag use_arr corner_points k
           = (Inl (ValueError ''x is not in list''), k)"
proof -
  obtain m ms where m: "find_missing_numbers corner_points [2..20] = m # ms"
    using missing_nonempty [of corner_points "[2..20]"] assms(1) card_arange
    by (cases "find_missing_numbers corner_points [2..20]") (simp_all del: set_upto)
  have "m \<notin> set corner_points" using missing_not_corner [OF m] .
  then show ?thesis
    using assms m by (simp add: resolve_corners_def py_index_def)
qed

theorem resolve_corners_missing_id_raises_witness:
  "length [5, 6, 8 :: int] = 3 \<and> 1 \<notin> set [5, 6, 8 :: int] \<and>
   resolve_corners 7 ''Left'' [5, 6, 8] fresh_kernel
     = (Inl (ValueError ''x is not in list''), fresh_kernel)"
proof -
  have h1: "length [5, 6, 8 :: int] = 3" and h2: "1 \<notin> set [5, 6, 8 :: int]"
    by simp_all
  show ?thesis
    by (rule conjI [OF h1 conjI [OF h2 resolve_corners_missing_id_raises [OF h1 h2]]])
qed

subsection \<open>Sweep pairing\<close>

text \<open>
  Whenever the kernel reports a volume among the entities of each sweep,
  \<open>revolve_surface\<close> issues exactly two revolution calls on the patch, the first by
  \<open>+\<Delta>\<close> and the second by \<open>-\<Delta>\<close>; if it returns, it returns the first volume of each
  sweep; without constraint propagation it always returns.
\<close>

lemma revolve_surface_sweeps:
  assumes "first_volume (revolve_answer G k [(2, surface_loop)] (ax, ay, az) (cx, cy, cz)
              angle_sweep) = Inr vol_plus"
    and "first_volume (revolve_answer G
            (k\<lparr>calls := calls k @ [Revolve [(2, surface_loop)] ax ay az cx cy cz angle_sweep]\<rparr>)
            [(2, surface_loop)] (ax, ay, az) (cx, cy, cz) (- angle_sweep)) = Inr vol_minus"
  shows "filter is_revolve
       (new_calls k (snd (revolve_surface G (ax, ay, az) (cx, cy, cz) angle_sweep surface_loop
            n_div_rad n_div_curved bumpcoef surface_type apply_transfinite k)))
       = [Revolve [(2, surface_loop)] ax ay az cx cy cz angle_sweep,
          Revolve [(2, surface_loop)] ax ay az cx cy cz (- angle_sweep)] \<and>
     (case fst (revolve_surface G (ax, ay, az) (cx, cy, cz) angle_sweep surface_loop
            n_div_rad n_div_curved bumpcoef surface_type apply_transfinite k) of
        Inr vols \<Rightarrow> vols = (vol_plus, vol_minus)
      | Inl e \<Rightarrow> apply_transfinite)"
proof -
  let ?r1 = "Revolve [(2, surface_loop)] ax ay az cx cy cz angle_sweep"
  let ?r2 = "Revolve [(2, surface_loop)] ax ay az cx cy cz (- angle_sweep)"
  let ?out_plus = "revolve_answer G k [(2, surface_loop)] (ax, ay, az) (cx, cy, cz) angle_sweep"
  let ?k1 = "k\<lparr>calls := calls k @ [?r1]\<rparr>"
  let ?out_minus =
    "revolve_answer G ?k1 [(2, surface_loop)] (ax, ay, az) (cx, cy, cz) (- angle_sweep)"
  let ?k2 = "k\<lparr>calls := calls k @ [?r1, ?r2]\<rparr>"
  show ?thesis
  proof (cases apply_transfinite)
    case False
    then show ?thesis using assms
      by (simp add: revolve_surface_def revolve_def new_calls_def)
  next
    case True
    obtain r3 k3 where r3:
      "apply_transfinite_sweep G ?out_plus n_div_rad n_div_curved bumpcoef surface_type ?k2
         = (r3, k3)"
      by (cases "apply_transfinite_sweep G ?out_plus n_div_rad n_div_curved bumpcoef
                   surface_type ?k2")
    obtain cs3 where cs3: "calls k3 = calls ?k2 @ cs3" "filter is_revolve cs3 = []"
      using apply_transfinite_sweep_calls
        [of G ?out_plus n_div_rad n_div_curved bumpcoef surface_type ?k2] r3
      by auto
    obtain r4 k4 where r4:
      "apply_transfinite_sweep G ?out_minus n_div_rad n_div_curved bumpcoef surface_type k3
         = (r4, k4)"
      by (cases "apply_transfinite_sweep G ?out_minus n_div_rad n_div_curved bumpcoef
                   surface_type k3")
    obtain cs4 where cs4: "calls k4 = calls k3 @ cs4" "filter is_revolve cs4 = []"
      using apply_transfinite_sweep_calls
        [of G ?out_minus n_div_rad n_div_curved bumpcoef surface_type k3] r4
      by auto
    show ?thesis
    proof (cases r3)
      case (Inl e)
      then show ?thesis using True assms r3 cs3
        by (simp add: revolve_surface_def revolve_def)
    next
      case (Inr u)
      then show ?thesis using True assms r3 cs3 r4 cs4
        by (cases r4) (simp_all add: revolve_surface_def revolve_def)
    qed
  qed
qed


text \<open>
  C9 asks that every patch passed to \<open>revolve_surface\<close> yield the two volume handles of
  its positive and negative sweep.  For a band sweep (constraint propagation on) whose
  new lateral surface is a triangle on the points 5, 6 and 8, the code issues both
  sweeps, the kernel reports the volumes 1 and 2, and the call then ends with
  \<open>ValueError\<close> in the constraint pass (the defect of C7, line 154): no handle is
  returned.
\<close>

theorem revolve_surface_band_sweep_raises:
  "revolve_answer triangle_answers fresh_kernel [(2, 5)] (0, 0, 1) (0, 0, 0) 1
     = [(2, 11), (3, 1)] \<and>
   revolve_answer triangle_answers
       (fresh_kernel\<lparr>calls := calls fresh_kernel @ [Revolve [(2, 5)] 0 0 1 0 0 0 1]\<rparr>)
       [(2, 5)] (0, 0, 1) (0, 0, 0) (- 1) = [(2, 12), (3, 2)] \<and>
   filter is_revolve
     (new_calls fresh_kernel (snd (revolve_surface triangle_answers (0, 0, 1) (0, 0, 0) 1 5
          8 16 1 ''inner'' True fresh_kernel)))
     = [Revolve [(2, 5)] 0 0 1 0 0 0 1, Revolve [(2, 5)] 0 0 1 0 0 0 (- 1)] \<and>
   fst (revolve_surface triangle_answers (0, 0, 1) (0, 0, 0) 1 5 8 16 1 ''inner'' True
          fresh_kernel)
     = Inl (ValueError ''x is not in list'')"
  by (simp add: revolve_surface_def revolve_def first_volume_def triangle_answers_def
        apply_transfinite_sweep_def synchronize_def sweep_surface_def surface_arrangement_def
        getBoundary_def getType_def set_transfinite_def add_corner_def resolve_corners_def
        find_missing_numbers_def py_index_def new_calls_def fresh_kernel_def Let_def upto.simps)

end
